theory Spec2Isabelle
  imports Main "HOL-Library.Sublist" "HOL-Library.AList"
begin

section \<open>JavaScript values\<close>

text \<open>
  A thrown value is always an \<open>Error\<close> object in this code base; only its \<open>message\<close> is
  ever read. Strings are character lists; every string operation used by the sources
  compares single code units, so the width of a character plays no role.
\<close>

datatype error = Error (message: string)

text \<open>Truthiness of an optional string: \<open>null\<close>, \<open>undefined\<close> and \<open>''\<close> are falsy.\<close>

definition truthy :: "string option \<Rightarrow> bool" where
  "truthy v = (case v of None \<Rightarrow> False | Some s \<Rightarrow> s \<noteq> [])"

text \<open>\<open>s.startsWith(p)\<close> and \<open>s.includes(p)\<close>.\<close>

definition startsWith :: "string \<Rightarrow> string \<Rightarrow> bool" where
  "startsWith s p = prefix p s"

fun str_includes :: "string \<Rightarrow> string \<Rightarrow> bool" where
  "str_includes [] p = (p = [])"
| "str_includes (c # cs) p = (prefix p (c # cs) \<or> str_includes cs p)"

text \<open>\<open>s.split(sep)\<close> for a one-character separator: never empty, keeps empty pieces.\<close>

fun split :: "string \<Rightarrow> char \<Rightarrow> string list" where
  "split [] sep = [[]]"
| "split (c # cs) sep =
     (if c = sep then [] # split cs sep
      else (case split cs sep of
              [] \<Rightarrow> [[c]]
            | piece # pieces \<Rightarrow> (c # piece) # pieces))"

text \<open>\<open>s.trim()\<close>: white space of the Latin-1 range is removed at both ends.\<close>

definition isWhiteSpace :: "char \<Rightarrow> bool" where
  "isWhiteSpace c = (c \<in> set [CHR 0x09, CHR 0x0A, CHR 0x0B, CHR 0x0C, CHR 0x0D, CHR 0x20, CHR 0xA0])"

definition trim :: "string \<Rightarrow> string" where
  "trim s = rev (dropWhile isWhiteSpace (rev (dropWhile isWhiteSpace s)))"

text \<open>\<open>s.slice(0, n)\<close> for a non-negative \<open>n\<close>.\<close>

definition slice0 :: "string \<Rightarrow> nat \<Rightarrow> string" where
  "slice0 s n = take n s"

section \<open>Programs with effects\<close>

text \<open>
  An \<open>async\<close> function is a state transformer on the world that either returns a value
  (\<open>Inr\<close>) or throws (\<open>Inl\<close>). \<open>bind\<close> is sequencing of awaited steps: a throw skips
  the rest. \<open>try_catch\<close> is \<open>try { ... } catch (e) { ... }\<close>.
\<close>

type_synonym ('s, 'a) prog = "'s \<Rightarrow> (error + 'a) \<times> 's"

definition return :: "'a \<Rightarrow> ('s, 'a) prog" where
  "return x s = (Inr x, s)"

definition throw :: "error \<Rightarrow> ('s, 'a) prog" where
  "throw e s = (Inl e, s)"

definition bind :: "('s, 'a) prog \<Rightarrow> ('a \<Rightarrow> ('s, 'b) prog) \<Rightarrow> ('s, 'b) prog" where
  "bind m f s = (case m s of (Inl e, s') \<Rightarrow> (Inl e, s') | (Inr x, s') \<Rightarrow> f x s')"

definition try_catch :: "('s, 'a) prog \<Rightarrow> (error \<Rightarrow> ('s, 'a) prog) \<Rightarrow> ('s, 'a) prog" where
  "try_catch m h s = (case m s of (Inl e, s') \<Rightarrow> h e s' | (Inr x, s') \<Rightarrow> (Inr x, s'))"

section \<open>The data model\<close>

datatype InstanceStatus = DEPLOYING | RUNNING | STOPPED | RESTARTING | ERROR

text \<open>The \<open>Instance\<close> and \<open>DeploymentLog\<close> rows, with the columns the sources read or write.\<close>

record Instance =
  inst_id :: string
  userId :: string
  containerId :: "string option"
  containerName :: "string option"
  port :: nat
  status :: InstanceStatus
  accessUrl :: "string option"
  serviceUrl :: "string option"
  gatewayToken :: "string option"
  lastHealthCheck :: "nat option"

record DeploymentLog =
  log_instanceId :: string
  log_action :: string
  log_status :: string
  log_message :: string
  log_error :: "string option"

text \<open>Provider resources: the fields of \<open>FlyMachine\<close>, \<open>RenderService\<close> and
  \<open>RenderDeploy\<close> that the code looks at.\<close>

record FlyMachine =
  machine_id :: string
  machine_state :: string

text \<open>
  \<open>serviceDetails.url\<close> is optional in \<open>RenderService\<close>, and the code tests it in two ways:
  for truthiness, and against \<open>undefined\<close>. An absent key (\<open>undefined\<close>), \<open>null\<close> and a string
  are therefore kept apart.
\<close>

datatype jsString = JsUndefined | JsNull | JsString string

definition js_truthy :: "jsString \<Rightarrow> bool" where
  "js_truthy v = (case v of JsString s \<Rightarrow> s \<noteq> [] | _ \<Rightarrow> False)"

definition js_text :: "jsString \<Rightarrow> string" where
  "js_text v = (case v of JsString s \<Rightarrow> s | _ \<Rightarrow> [])"

record RenderService =
  service_id :: string
  service_name :: string
  suspended :: string
  service_url :: jsString

record RenderDeploy =
  deploy_id :: string
  deploy_status :: string

section \<open>The world outside the process\<close>

text \<open>
  Every interaction with something outside the process (the database server, a provider
  API, the \<open>flyctl\<close> binary, the deployed gateway) is a \<open>call\<close>. The world keeps the
  database tables, the clock in milliseconds and the list of calls made so far.
\<close>

datatype call =
    Exec string nat
  | DbFindUnique string
  | DbCreate string
  | DbUpdate string
  | DbDelete string
  | DbLogCreate string
  | AllocatePort
  | VerifyAccess
  | CreateApp string
  | DeleteApp string
  | SetSecrets string "(string \<times> string) list"
  | CreateMachine string string "(string \<times> string) list" "string list"
  | GetMachine string string
  | ListMachines string
  | StopMachine string string
  | StartMachine string string
  | RestartMachine string string
  | DeleteMachine string string
  | GetMachineLogsReq string string nat
  | AllocateIPAddress string string
  | CreateService string string "(string \<times> string) list" string
  | GetService string
  | DeleteService string
  | SuspendService string
  | ResumeService string
  | RestartService string
  | GetDeploy string string
  | Fetch string string

record world =
  instances :: "Instance list"
  deploymentLogs :: "DeploymentLog list"
  now :: nat
  trace :: "call list"

text \<open>
  The environment fixes how the outside answers: the \<open>n\<close>-th call of a run gets the answer
  the matching oracle gives at \<open>n\<close>, and takes \<open>latency n\<close> milliseconds. Nothing is assumed
  about the oracles, so every call may fail at any time, database calls included
  (\<open>void_res\<close> answers the calls whose result is not used). The configuration builder, the
  port allocator and \<open>JSON.parse\<close> live in modules outside these sources and are
  parameters as well.
\<close>

record pendingDevice =
  requestId :: "string option"
  channel :: "string option"
  identifier' :: "string option"
  timestamp :: "string option"

record 'cfg env =
  FLY_API_TOKEN :: "string option"
  FLY_ORG_SLUG :: "string option"
  RENDER_API_KEY :: "string option"
  OPENCLAW_IMAGE_VAR :: "string option"
  latency :: "nat \<Rightarrow> nat"
  void_res :: "nat \<Rightarrow> call \<Rightarrow> error option"
  exec_res :: "nat \<Rightarrow> call \<Rightarrow> error + string \<times> string"
  machine_res :: "nat \<Rightarrow> call \<Rightarrow> error + FlyMachine"
  machines_res :: "nat \<Rightarrow> call \<Rightarrow> error + FlyMachine list"
  logs_res :: "nat \<Rightarrow> call \<Rightarrow> error + string option"
  service_res :: "nat \<Rightarrow> call \<Rightarrow> error + RenderService"
  deploy_res :: "nat \<Rightarrow> call \<Rightarrow> error + RenderDeploy"
  fetch_res :: "nat \<Rightarrow> call \<Rightarrow> error + bool"
  port_res :: "nat \<Rightarrow> call \<Rightarrow> error + nat"
  cuid :: "nat \<Rightarrow> string"
  randomUUID :: "nat \<Rightarrow> string"
  generateOpenClawConfig :: "'cfg \<Rightarrow> error + string"
  buildEnvironmentVariables :: "'cfg \<Rightarrow> error + (string \<times> string) list"
  JSON_parse_devices :: "string \<Rightarrow> pendingDevice list option"

definition extern :: "'cfg env \<Rightarrow> call \<Rightarrow> (nat \<Rightarrow> call \<Rightarrow> error + 'a) \<Rightarrow> (world, 'a) prog" where
  "extern env c oracle w =
     (oracle (length (trace w)) c,
      w\<lparr>now := now w + latency env (length (trace w)), trace := trace w @ [c]\<rparr>)"

definition void_oracle :: "'cfg env \<Rightarrow> nat \<Rightarrow> call \<Rightarrow> error + unit" where
  "void_oracle env n c = (case void_res env n c of Some e \<Rightarrow> Inl e | None \<Rightarrow> Inr ())"

text \<open>\<open>await new Promise((resolve) => setTimeout(resolve, ms))\<close>\<close>

definition sleep :: "nat \<Rightarrow> (world, unit) prog" where
  "sleep ms w = (Inr (), w\<lparr>now := now w + ms\<rparr>)"

section \<open>The command proxy (\<open>lib/fly/ssh.ts\<close>)\<close>

record sshOptions =
  timeout :: "nat option"
  machineId :: "string option"

text \<open>\<open>command.replace(/"/g, '\\"')\<close>\<close>

definition escapeQuotes :: "string \<Rightarrow> string" where
  "escapeQuotes s = concat (map (\<lambda>c. if c = CHR 0x22 then [CHR 0x5C, CHR 0x22] else [c]) s)"

definition executeSSHCommand ::
  "'cfg env \<Rightarrow> string \<Rightarrow> string \<Rightarrow> sshOptions option \<Rightarrow> (world, string \<times> string) prog" where
  "executeSSHCommand env appName command options =
     (let timeout_ms = (case options of
                          None \<Rightarrow> 30000
                        | Some opts \<Rightarrow> (case timeout opts of
                                         None \<Rightarrow> 30000
                                       | Some t \<Rightarrow> if t = 0 then 30000 else t));
          machineIdFlag = (case options of
                             None \<Rightarrow> []
                           | Some opts \<Rightarrow> (case machineId opts of
                                            None \<Rightarrow> []
                                          | Some m \<Rightarrow> if m = [] then [] else ''--machine '' @ m));
          flyctlCommand = ''flyctl ssh console '' @ machineIdFlag @ '' --app '' @ appName
                          @ '' --command '' @ [CHR 0x22] @ escapeQuotes command @ [CHR 0x22]
      in try_catch (extern env (Exec flyctlCommand timeout_ms) (exec_res env))
           (\<lambda>error. throw (Error (''SSH command failed: '' @ message error))))"

subsection \<open>\<open>listPendingDevices\<close>\<close>

definition emptyDevice :: pendingDevice where
  "emptyDevice = \<lparr>requestId = None, channel = None, identifier' = None, timestamp = None\<rparr>"

text \<open>\<open>line.split(':')[1]?.trim()\<close>: the piece between the first and the second colon.\<close>

definition labelledValue :: "string \<Rightarrow> string option" where
  "labelledValue line =
     (case split line (CHR '':'') of
        _ # piece # _ \<Rightarrow> Some (trim piece)
      | _ \<Rightarrow> None)"

text \<open>The \<open>for (const line of lines)\<close> loop, on the pair \<open>(currentDevice, devices)\<close>.\<close>

fun parseDeviceLines ::
  "string list \<Rightarrow> pendingDevice \<Rightarrow> pendingDevice list \<Rightarrow> pendingDevice \<times> pendingDevice list" where
  "parseDeviceLines [] currentDevice devices = (currentDevice, devices)"
| "parseDeviceLines (line # lines) currentDevice devices =
     (if startsWith line ''Request ID:'' then
        (if truthy (requestId currentDevice)
         then parseDeviceLines lines (emptyDevice\<lparr>requestId := labelledValue line\<rparr>)
                (devices @ [currentDevice])
         else parseDeviceLines lines (currentDevice\<lparr>requestId := labelledValue line\<rparr>) devices)
      else if startsWith line ''Channel:'' then
        parseDeviceLines lines (currentDevice\<lparr>channel := labelledValue line\<rparr>) devices
      else if startsWith line ''Identifier:'' then
        parseDeviceLines lines (currentDevice\<lparr>identifier' := labelledValue line\<rparr>) devices
      else if startsWith line ''Timestamp:'' then
        parseDeviceLines lines (currentDevice\<lparr>timestamp := labelledValue line\<rparr>) devices
      else parseDeviceLines lines currentDevice devices)"

text \<open>The \<open>catch\<close> branch of \<open>listPendingDevices\<close>: the text parser.\<close>

definition parseDevicesText :: "string \<Rightarrow> pendingDevice list" where
  "parseDevicesText stdout =
     (case parseDeviceLines (split stdout (CHR 0x0A)) emptyDevice [] of
        (currentDevice, devices) \<Rightarrow>
          if truthy (requestId currentDevice) then devices @ [currentDevice] else devices)"

definition listPendingDevices :: "'cfg env \<Rightarrow> string \<Rightarrow> (world, pendingDevice list) prog" where
  "listPendingDevices env appName =
     bind (executeSSHCommand env appName ''openclaw devices list --json'' None)
       (\<lambda>(stdout, stderr).
          case JSON_parse_devices env stdout of
            Some devices \<Rightarrow> return devices
          | None \<Rightarrow> return (parseDevicesText stdout))"

subsection \<open>\<open>approveDevice\<close>\<close>

record approval =
  success :: bool
  approval_message :: string

definition approveDevice :: "'cfg env \<Rightarrow> string \<Rightarrow> string \<Rightarrow> (world, approval) prog" where
  "approveDevice env appName requestId' =
     bind (executeSSHCommand env appName (''openclaw devices approve '' @ requestId') None)
       (\<lambda>(stdout, stderr).
          return \<lparr>success = (\<not> str_includes stderr ''error'' \<and> \<not> str_includes stderr ''failed''),
                  approval_message = stdout @ stderr\<rparr>)"

subsection \<open>\<open>executeOpenClawCommand\<close>\<close>

text \<open>\<open>command.replace(/[;&|`$()]/g, '')\<close>\<close>

definition sanitize :: "string \<Rightarrow> string" where
  "sanitize command = filter (\<lambda>c. c \<notin> set '';&|`$()'') command"

definition executeOpenClawCommand :: "'cfg env \<Rightarrow> string \<Rightarrow> string \<Rightarrow> (world, string \<times> string) prog" where
  "executeOpenClawCommand env appName command =
     executeSSHCommand env appName (''openclaw '' @ sanitize command) None"

section \<open>The Fly.io client (\<open>lib/fly/client.ts\<close>)\<close>

record FlyClient =
  fly_token :: string
  fly_orgSlug :: string

text \<open>The constructor reads the two credentials and fails when one is missing or empty.\<close>

definition newFlyClient :: "'cfg env \<Rightarrow> (world, FlyClient) prog" where
  "newFlyClient env =
     (case FLY_API_TOKEN env of
        None \<Rightarrow> throw (Error ''Missing FLY_API_TOKEN environment variable. Get one at: https://fly.io/user/personal_access_tokens'')
      | Some token \<Rightarrow>
          if token = [] then throw (Error ''Missing FLY_API_TOKEN environment variable. Get one at: https://fly.io/user/personal_access_tokens'')
          else (case FLY_ORG_SLUG env of
                  None \<Rightarrow> throw (Error ''Missing FLY_ORG_SLUG environment variable. Find yours at: https://fly.io/dashboard'')
                | Some slug \<Rightarrow>
                    if slug = [] then throw (Error ''Missing FLY_ORG_SLUG environment variable. Find yours at: https://fly.io/dashboard'')
                    else return \<lparr>fly_token = token, fly_orgSlug = slug\<rparr>))"

text \<open>
  Each method is one authenticated request; the answer of the API (or the error built from a
  non-2xx answer) comes from the environment.
\<close>

definition verifyAccess :: "'cfg env \<Rightarrow> FlyClient \<Rightarrow> (world, unit) prog" where
  "verifyAccess env fly = extern env VerifyAccess (void_oracle env)"

definition createApp :: "'cfg env \<Rightarrow> FlyClient \<Rightarrow> string \<Rightarrow> (world, unit) prog" where
  "createApp env fly name = extern env (CreateApp name) (void_oracle env)"

definition deleteApp :: "'cfg env \<Rightarrow> FlyClient \<Rightarrow> string \<Rightarrow> (world, unit) prog" where
  "deleteApp env fly appName = extern env (DeleteApp appName) (void_oracle env)"

definition setSecrets ::
  "'cfg env \<Rightarrow> FlyClient \<Rightarrow> string \<Rightarrow> (string \<times> string) list \<Rightarrow> (world, unit) prog" where
  "setSecrets env fly appName secrets = extern env (SetSecrets appName secrets) (void_oracle env)"

definition createMachine ::
  "'cfg env \<Rightarrow> FlyClient \<Rightarrow> string \<Rightarrow> string \<Rightarrow> (string \<times> string) list \<Rightarrow> string list
     \<Rightarrow> (world, FlyMachine) prog" where
  "createMachine env fly appName imageRef machineEnv cmd =
     extern env (CreateMachine appName imageRef machineEnv cmd) (machine_res env)"

definition getMachine :: "'cfg env \<Rightarrow> FlyClient \<Rightarrow> string \<Rightarrow> string \<Rightarrow> (world, FlyMachine) prog" where
  "getMachine env fly appName machineId' = extern env (GetMachine appName machineId') (machine_res env)"

definition listMachines :: "'cfg env \<Rightarrow> FlyClient \<Rightarrow> string \<Rightarrow> (world, FlyMachine list) prog" where
  "listMachines env fly appName = extern env (ListMachines appName) (machines_res env)"

definition stopMachine :: "'cfg env \<Rightarrow> FlyClient \<Rightarrow> string \<Rightarrow> string \<Rightarrow> (world, unit) prog" where
  "stopMachine env fly appName machineId' = extern env (StopMachine appName machineId') (void_oracle env)"

definition startMachine :: "'cfg env \<Rightarrow> FlyClient \<Rightarrow> string \<Rightarrow> string \<Rightarrow> (world, unit) prog" where
  "startMachine env fly appName machineId' = extern env (StartMachine appName machineId') (void_oracle env)"

definition restartMachine :: "'cfg env \<Rightarrow> FlyClient \<Rightarrow> string \<Rightarrow> string \<Rightarrow> (world, unit) prog" where
  "restartMachine env fly appName machineId' =
     extern env (RestartMachine appName machineId') (void_oracle env)"

definition deleteMachine :: "'cfg env \<Rightarrow> FlyClient \<Rightarrow> string \<Rightarrow> string \<Rightarrow> (world, unit) prog" where
  "deleteMachine env fly appName machineId' =
     extern env (DeleteMachine appName machineId') (void_oracle env)"

text \<open>
  \<open>waitForMachineState\<close>: the \<open>while (Date.now() - startTime < timeoutMs)\<close> loop. One round
  reads the machine, returns on the target state, throws on \<open>failed\<close> or \<open>destroyed\<close>, and
  otherwise sleeps for the poll interval of 3000 ms.
\<close>

function waitForMachineState_loop ::
  "'cfg env \<Rightarrow> FlyClient \<Rightarrow> string \<Rightarrow> string \<Rightarrow> string \<Rightarrow> int \<Rightarrow> nat \<Rightarrow> (world, unit) prog" where
  "waitForMachineState_loop env fly appName machineId' targetState timeoutMs startTime w =
     (if int (now w) - int startTime < timeoutMs then
        (case getMachine env fly appName machineId' w of
           (Inl e, w1) \<Rightarrow> (Inl e, w1)
         | (Inr machine, w1) \<Rightarrow>
             if machine_state machine = targetState then (Inr (), w1)
             else if machine_state machine = ''failed'' \<or> machine_state machine = ''destroyed''
             then (Inl (Error (''Machine entered terminal state: '' @ machine_state machine)), w1)
             else waitForMachineState_loop env fly appName machineId' targetState timeoutMs startTime
                    (snd (sleep 3000 w1)))
      else (Inl (Error (''Timeout waiting for machine to reach state: '' @ targetState)), w))"
  by pat_completeness auto
termination
proof (relation "measure (\<lambda>(env, fly, appName, machineId', targetState, timeoutMs, startTime, w).
                   nat (int startTime + timeoutMs - int (now w)))", goal_cases)
  case 1
  show ?case by simp
next
  case (2 env fly appName machineId' targetState timeoutMs startTime w x1 w1 machine)
  from 2(2) have "now w \<le> now w1"
    by (auto simp: getMachine_def extern_def)
  with 2(1) show ?case
    by (simp add: sleep_def)
qed

declare waitForMachineState_loop.simps [simp del]

definition waitForMachineState ::
  "'cfg env \<Rightarrow> FlyClient \<Rightarrow> string \<Rightarrow> string \<Rightarrow> string \<Rightarrow> int \<Rightarrow> (world, unit) prog" where
  "waitForMachineState env fly appName machineId' targetState timeoutMs w =
     waitForMachineState_loop env fly appName machineId' targetState timeoutMs (now w) w"

text \<open>\<open>getMachineLogs\<close>: \<open>logs.logs || 'No logs available'\<close> inside \<open>try\<close>, a fixed text on any throw.\<close>

definition getMachineLogs :: "'cfg env \<Rightarrow> FlyClient \<Rightarrow> string \<Rightarrow> string \<Rightarrow> nat \<Rightarrow> (world, string) prog" where
  "getMachineLogs env fly appName machineId' limit =
     try_catch
       (bind (extern env (GetMachineLogsReq appName machineId' limit) (logs_res env))
          (\<lambda>logs. return (case logs of
                            None \<Rightarrow> ''No logs available''
                          | Some content \<Rightarrow> if content = [] then ''No logs available'' else content)))
       (\<lambda>error. return ''Failed to fetch logs. Use flyctl logs instead.'')"

definition allocateIPAddress :: "'cfg env \<Rightarrow> FlyClient \<Rightarrow> string \<Rightarrow> string \<Rightarrow> (world, unit) prog" where
  "allocateIPAddress env fly appName ipType = extern env (AllocateIPAddress appName ipType) (void_oracle env)"

definition getAppHostname :: "string \<Rightarrow> string" where
  "getAppHostname appName = appName @ ''.fly.dev''"

definition getAppUrl :: "string \<Rightarrow> string" where
  "getAppUrl appName = ''https://'' @ getAppHostname appName"

section \<open>The Render client (second module of \<open>lib/fly/ssh.ts\<close>)\<close>

record RenderClient =
  render_apiKey :: string

definition missingRenderKey :: string where
  "missingRenderKey =
     ''Missing RENDER_API_KEY environment variable.'' @ [CHR 0x0A] @
     ''Get one at: https://dashboard.render.com/u/<your-username>/settings#api-keys''"

definition newRenderClient :: "'cfg env \<Rightarrow> (world, RenderClient) prog" where
  "newRenderClient env =
     (case RENDER_API_KEY env of
        None \<Rightarrow> throw (Error missingRenderKey)
      | Some apiKey \<Rightarrow>
          if apiKey = [] then throw (Error missingRenderKey)
          else return \<lparr>render_apiKey = apiKey\<rparr>)"

definition createService ::
  "'cfg env \<Rightarrow> RenderClient \<Rightarrow> string \<Rightarrow> string \<Rightarrow> (string \<times> string) list \<Rightarrow> string
     \<Rightarrow> (world, RenderService) prog" where
  "createService env render name imageRef serviceEnv startCommand =
     extern env (CreateService name imageRef serviceEnv startCommand) (service_res env)"

definition getService :: "'cfg env \<Rightarrow> RenderClient \<Rightarrow> string \<Rightarrow> (world, RenderService) prog" where
  "getService env render serviceId = extern env (GetService serviceId) (service_res env)"

definition deleteService :: "'cfg env \<Rightarrow> RenderClient \<Rightarrow> string \<Rightarrow> (world, unit) prog" where
  "deleteService env render serviceId = extern env (DeleteService serviceId) (void_oracle env)"

definition suspendService :: "'cfg env \<Rightarrow> RenderClient \<Rightarrow> string \<Rightarrow> (world, unit) prog" where
  "suspendService env render serviceId = extern env (SuspendService serviceId) (void_oracle env)"

definition resumeService :: "'cfg env \<Rightarrow> RenderClient \<Rightarrow> string \<Rightarrow> (world, unit) prog" where
  "resumeService env render serviceId = extern env (ResumeService serviceId) (void_oracle env)"

definition restartService :: "'cfg env \<Rightarrow> RenderClient \<Rightarrow> string \<Rightarrow> (world, unit) prog" where
  "restartService env render serviceId = extern env (RestartService serviceId) (void_oracle env)"

definition getDeploy :: "'cfg env \<Rightarrow> RenderClient \<Rightarrow> string \<Rightarrow> string \<Rightarrow> (world, RenderDeploy) prog" where
  "getDeploy env render serviceId deployId = extern env (GetDeploy serviceId deployId) (deploy_res env)"

text \<open>\<open>waitForDeploy\<close>: the same loop shape with target \<open>live\<close> and a poll interval of 5000 ms.\<close>

function waitForDeploy_loop ::
  "'cfg env \<Rightarrow> RenderClient \<Rightarrow> string \<Rightarrow> string \<Rightarrow> int \<Rightarrow> nat \<Rightarrow> (world, unit) prog" where
  "waitForDeploy_loop env render serviceId deployId timeoutMs startTime w =
     (if int (now w) - int startTime < timeoutMs then
        (case getDeploy env render serviceId deployId w of
           (Inl e, w1) \<Rightarrow> (Inl e, w1)
         | (Inr deploy, w1) \<Rightarrow>
             if deploy_status deploy = ''live'' then (Inr (), w1)
             else if deploy_status deploy = ''build_failed'' \<or> deploy_status deploy = ''deactivated''
             then (Inl (Error (''Deployment failed with status: '' @ deploy_status deploy)), w1)
             else waitForDeploy_loop env render serviceId deployId timeoutMs startTime
                    (snd (sleep 5000 w1)))
      else (Inl (Error ''Deployment timeout (5 minutes)''), w))"
  by pat_completeness auto
termination
proof (relation "measure (\<lambda>(env, render, serviceId, deployId, timeoutMs, startTime, w).
                   nat (int startTime + timeoutMs - int (now w)))", goal_cases)
  case 1
  show ?case by simp
next
  case (2 env render serviceId deployId timeoutMs startTime w x1 w1 deploy)
  from 2(2) have "now w \<le> now w1"
    by (auto simp: getDeploy_def extern_def)
  with 2(1) show ?case
    by (simp add: sleep_def)
qed

declare waitForDeploy_loop.simps [simp del]

definition waitForDeploy ::
  "'cfg env \<Rightarrow> RenderClient \<Rightarrow> string \<Rightarrow> string \<Rightarrow> int \<Rightarrow> (world, unit) prog" where
  "waitForDeploy env render serviceId deployId timeoutMs w =
     waitForDeploy_loop env render serviceId deployId timeoutMs (now w) w"

definition getShellUrl :: "string \<Rightarrow> string" where
  "getShellUrl serviceId = ''https://dashboard.render.com/web/'' @ serviceId @ ''/shell''"

section \<open>The database\<close>

text \<open>
  Modelled from the spec: the Prisma client and its schema (\<open>lib/prisma\<close>) are not among the
  sources. The spec has one \<open>Instance\<close> row per user, enforced unique, and an append-only
  \<open>DeploymentLog\<close>; \<open>findUnique\<close> returns the row or \<open>null\<close>; \<open>create\<close> fails on a unique
  column (\<open>id\<close>, \<open>userId\<close>, \<open>port\<close>) that is taken; \<open>update\<close> and \<open>delete\<close> fail when the
  row is missing. Every one of them is a call to the database server and may fail as such.
\<close>

definition instance_findUnique_userId :: "'cfg env \<Rightarrow> string \<Rightarrow> (world, Instance option) prog" where
  "instance_findUnique_userId env user_id =
     bind (extern env (DbFindUnique user_id) (void_oracle env))
       (\<lambda>_ w. (Inr (find (\<lambda>r. userId r = user_id) (instances w)), w))"

definition instance_findUnique_id :: "'cfg env \<Rightarrow> string \<Rightarrow> (world, Instance option) prog" where
  "instance_findUnique_id env instance_id =
     bind (extern env (DbFindUnique instance_id) (void_oracle env))
       (\<lambda>_ w. (Inr (find (\<lambda>r. inst_id r = instance_id) (instances w)), w))"

definition instance_create ::
  "'cfg env \<Rightarrow> string \<Rightarrow> string \<Rightarrow> nat \<Rightarrow> (world, Instance) prog" where
  "instance_create env user_id container_name port_no =
     bind (extern env (DbCreate user_id) (void_oracle env))
       (\<lambda>_ w.
          let row = \<lparr>inst_id = cuid env (length (trace w)), userId = user_id, containerId = None,
                     containerName = Some container_name, port = port_no, status = DEPLOYING,
                     accessUrl = None, serviceUrl = None, gatewayToken = None,
                     lastHealthCheck = None\<rparr>
          in if \<exists>r \<in> set (instances w).
                  inst_id r = inst_id row \<or> userId r = user_id \<or> port r = port_no
             then (Inl (Error ''Unique constraint failed''), w)
             else (Inr row, w\<lparr>instances := instances w @ [row]\<rparr>))"

definition instance_update ::
  "'cfg env \<Rightarrow> string \<Rightarrow> (Instance \<Rightarrow> Instance) \<Rightarrow> (world, unit) prog" where
  "instance_update env instance_id data =
     bind (extern env (DbUpdate instance_id) (void_oracle env))
       (\<lambda>_ w.
          if \<exists>r \<in> set (instances w). inst_id r = instance_id
          then (Inr (), w\<lparr>instances :=
                            map (\<lambda>r. if inst_id r = instance_id then data r else r) (instances w)\<rparr>)
          else (Inl (Error ''Record to update not found.''), w))"

definition instance_delete :: "'cfg env \<Rightarrow> string \<Rightarrow> (world, unit) prog" where
  "instance_delete env instance_id =
     bind (extern env (DbDelete instance_id) (void_oracle env))
       (\<lambda>_ w.
          if \<exists>r \<in> set (instances w). inst_id r = instance_id
          then (Inr (), w\<lparr>instances := filter (\<lambda>r. inst_id r \<noteq> instance_id) (instances w)\<rparr>)
          else (Inl (Error ''Record to delete does not exist.''), w))"

text \<open>\<open>logDeployment\<close>, the last function of both \<open>deploy.ts\<close> modules.\<close>

definition logDeployment ::
  "'cfg env \<Rightarrow> string \<Rightarrow> string \<Rightarrow> string \<Rightarrow> string \<Rightarrow> string option \<Rightarrow> (world, unit) prog" where
  "logDeployment env instance_id action_name status_name msg err =
     bind (extern env (DbLogCreate instance_id) (void_oracle env))
       (\<lambda>_ w. (Inr (), w\<lparr>deploymentLogs := deploymentLogs w @
                  [\<lparr>log_instanceId = instance_id, log_action = action_name,
                    log_status = status_name, log_message = msg, log_error = err\<rparr>]\<rparr>))"

section \<open>Helpers shared by both orchestrators\<close>

definition allocatePort :: "'cfg env \<Rightarrow> (world, nat) prog" where
  "allocatePort env = extern env AllocatePort (port_res env)"

text \<open>\<open>Date.now()\<close> and \<open>crypto.randomUUID()\<close>.\<close>

definition dateNow :: "(world, nat) prog" where
  "dateNow w = (Inr (now w), w)"

definition cryptoRandomUUID :: "'cfg env \<Rightarrow> (world, string) prog" where
  "cryptoRandomUUID env w = (Inr (randomUUID env (length (trace w))), w)"

text \<open>A synchronous call into the configuration builder: its value, or its throw.\<close>

definition sync :: "error + 'a \<Rightarrow> (world, 'a) prog" where
  "sync r w = (r, w)"

text \<open>\<open>n.toString(36)\<close>\<close>

definition digit36 :: "nat \<Rightarrow> char" where
  "digit36 d = ''0123456789abcdefghijklmnopqrstuvwxyz'' ! d"

fun toString36 :: "nat \<Rightarrow> string" where
  "toString36 n = (if n < 36 then [digit36 n] else toString36 (n div 36) @ [digit36 (n mod 36)])"

declare toString36.simps [simp del]

definition OPENCLAW_IMAGE :: "'cfg env \<Rightarrow> string" where
  "OPENCLAW_IMAGE env =
     (if truthy (OPENCLAW_IMAGE_VAR env) then the (OPENCLAW_IMAGE_VAR env)
      else ''ghcr.io/openclaw/openclaw:latest'')"

text \<open>
  The health probe of both \<open>deployInstance\<close> functions: \<open>healthOk\<close> starts as \<open>false\<close>, becomes
  \<open>healthResponse.ok\<close> when \<open>fetch\<close> returns, and the \<open>catch\<close> swallows a thrown \<open>fetch\<close>.
\<close>

definition healthProbe :: "'cfg env \<Rightarrow> string \<Rightarrow> string \<Rightarrow> (world, bool) prog" where
  "healthProbe env access_url gateway_token =
     try_catch
       (bind (extern env (Fetch (access_url @ ''/health'') gateway_token) (fetch_res env))
          (\<lambda>ok. return ok))
       (\<lambda>err. return False)"

text \<open>The \<open>catch\<close> block of both \<open>deployInstance\<close> functions.\<close>

definition deploy_failed :: "'cfg env \<Rightarrow> Instance \<Rightarrow> error \<Rightarrow> (world, 'a) prog" where
  "deploy_failed env inst error =
     bind (instance_update env (inst_id inst) (\<lambda>r. r\<lparr>status := ERROR\<rparr>))
       (\<lambda>_. bind (logDeployment env (inst_id inst) ''DEPLOY'' ''FAILED'' ''Deployment failed''
                     (Some (message error)))
       (\<lambda>_. throw (Error (''Deployment failed: '' @ message error))))"

section \<open>The Fly.io orchestrator (second module of \<open>lib/fly/client.ts\<close>)\<close>

record FlyDeploymentResult =
  fr_instanceId :: string
  fr_machineId :: string
  fr_appName :: string
  fr_port :: nat
  fr_accessUrl :: string
  fr_status :: string

text \<open>The \<open>for (const machine of machines)\<close> loop of the clean-up.\<close>

fun deleteMachines :: "'cfg env \<Rightarrow> FlyClient \<Rightarrow> string \<Rightarrow> FlyMachine list \<Rightarrow> (world, unit) prog" where
  "deleteMachines env fly appName [] = return ()"
| "deleteMachines env fly appName (machine # machines) =
     bind (deleteMachine env fly appName (machine_id machine))
       (\<lambda>_. deleteMachines env fly appName machines)"

text \<open>Clean-up of a pre-existing instance: errors are logged and swallowed.\<close>

definition fly_cleanup :: "'cfg env \<Rightarrow> FlyClient \<Rightarrow> Instance \<Rightarrow> (world, unit) prog" where
  "fly_cleanup env fly existing =
     try_catch
       (bind (if truthy (containerId existing) \<and> truthy (containerName existing)
              then bind (listMachines env fly (the (containerName existing)))
                     (\<lambda>machines. bind (deleteMachines env fly (the (containerName existing)) machines)
                     (\<lambda>_. deleteApp env fly (the (containerName existing))))
              else return ())
          (\<lambda>_. instance_delete env (inst_id existing)))
       (\<lambda>err. return ())"

text \<open>Everything before the \<open>try\<close>: client, app name, clean-up, port, placeholder row, first log.\<close>

definition fly_deploy_prepare ::
  "'cfg env \<Rightarrow> string \<Rightarrow> (world, FlyClient \<times> string \<times> Instance \<times> nat) prog" where
  "fly_deploy_prepare env user_id =
     bind (newFlyClient env) (\<lambda>fly.
     bind dateNow (\<lambda>millis.
     let appName = ''openclaw-'' @ slice0 user_id 8 @ ''-'' @ toString36 millis in
     bind (instance_findUnique_userId env user_id) (\<lambda>existing.
     bind (case existing of None \<Rightarrow> return () | Some ex \<Rightarrow> fly_cleanup env fly ex) (\<lambda>_.
     bind (allocatePort env) (\<lambda>port_no.
     bind (instance_create env user_id appName port_no) (\<lambda>inst.
     bind (logDeployment env (inst_id inst) ''DEPLOY'' ''IN_PROGRESS'' ''Creating Fly.io app...'' None) (\<lambda>_.
     return (fly, appName, inst, port_no))))))))"

text \<open>The \<open>try\<close> block up to the access URL.\<close>

definition fly_provision ::
  "'cfg env \<Rightarrow> FlyClient \<Rightarrow> string \<Rightarrow> 'cfg \<Rightarrow> Instance \<Rightarrow> (world, string \<times> FlyMachine \<times> string) prog" where
  "fly_provision env fly appName config inst =
     bind (verifyAccess env fly) (\<lambda>_.
     bind (createApp env fly appName) (\<lambda>_.
     bind (sync (generateOpenClawConfig env config)) (\<lambda>openclawConfig.
     bind (sync (buildEnvironmentVariables env config)) (\<lambda>envVars.
     bind (cryptoRandomUUID env) (\<lambda>gateway_token.
     let secrets = fold (\<lambda>(k, v). AList.update k v) envVars
                     [(''OPENCLAW_GATEWAY_TOKEN'', gateway_token)] in
     bind (setSecrets env fly appName secrets) (\<lambda>_.
     bind (instance_update env (inst_id inst) (\<lambda>r. r\<lparr>gatewayToken := Some gateway_token\<rparr>)) (\<lambda>_.
     let machineEnv = [(''OPENCLAW_CONFIG'', openclawConfig), (''NODE_ENV'', ''production''),
                       (''OPENCLAW_WORKSPACE'', ''/home/node/.openclaw/workspace'')];
         startCmd = [''/bin/sh'', ''-c'',
                     ''mkdir -p /home/node/.openclaw && echo \"$OPENCLAW_CONFIG\" > /home/node/.openclaw/openclaw.json && exec node dist/index.js gateway''] in
     bind (logDeployment env (inst_id inst) ''DEPLOY'' ''IN_PROGRESS'' ''Creating Fly.io machine...'' None) (\<lambda>_.
     bind (createMachine env fly appName (OPENCLAW_IMAGE env) machineEnv startCmd) (\<lambda>machine.
     bind (instance_update env (inst_id inst) (\<lambda>r. r\<lparr>containerId := Some (machine_id machine)\<rparr>)) (\<lambda>_.
     bind (logDeployment env (inst_id inst) ''DEPLOY'' ''IN_PROGRESS'' ''Waiting for machine to start...'' None) (\<lambda>_.
     bind (waitForMachineState env fly appName (machine_id machine) ''started'' 120000) (\<lambda>_.
     bind (logDeployment env (inst_id inst) ''DEPLOY'' ''IN_PROGRESS'' ''Allocating public IP...'' None) (\<lambda>_.
     bind (allocateIPAddress env fly appName ''v6'') (\<lambda>_.
     bind (sleep 10000) (\<lambda>_.
     return (gateway_token, machine, getAppUrl appName))))))))))))))))"

text \<open>The rest of the \<open>try\<close> block: health probe, final status, final log, result.\<close>

definition fly_verify ::
  "'cfg env \<Rightarrow> string \<Rightarrow> Instance \<Rightarrow> nat \<Rightarrow> string \<Rightarrow> FlyMachine \<Rightarrow> string
     \<Rightarrow> (world, FlyDeploymentResult) prog" where
  "fly_verify env appName inst port_no gateway_token machine access_url =
     bind (logDeployment env (inst_id inst) ''DEPLOY'' ''IN_PROGRESS'' ''Verifying OpenClaw Gateway...'' None) (\<lambda>_.
     bind (sleep 15000) (\<lambda>_.
     bind (healthProbe env access_url gateway_token) (\<lambda>healthOk.
     bind (instance_update env (inst_id inst)
             (\<lambda>r. r\<lparr>status := (if healthOk then RUNNING else ERROR),
                     accessUrl := Some access_url,
                     containerId := Some (machine_id machine)\<rparr>)) (\<lambda>_.
     bind (logDeployment env (inst_id inst) ''DEPLOY'' (if healthOk then ''SUCCESS'' else ''PARTIAL'')
             (if healthOk then ''Deployment completed''
              else ''Deployment completed but health check failed'') None) (\<lambda>_.
     return \<lparr>fr_instanceId = inst_id inst, fr_machineId = machine_id machine,
              fr_appName = appName, fr_port = port_no, fr_accessUrl = access_url,
              fr_status = (if healthOk then ''RUNNING'' else ''ERROR'')\<rparr>)))))"

definition fly_deploy_steps ::
  "'cfg env \<Rightarrow> FlyClient \<Rightarrow> string \<Rightarrow> 'cfg \<Rightarrow> Instance \<Rightarrow> nat \<Rightarrow> (world, FlyDeploymentResult) prog" where
  "fly_deploy_steps env fly appName config inst port_no =
     bind (fly_provision env fly appName config inst) (\<lambda>(gateway_token, machine, access_url).
     fly_verify env appName inst port_no gateway_token machine access_url)"

definition fly_deployInstance :: "'cfg env \<Rightarrow> string \<Rightarrow> 'cfg \<Rightarrow> (world, FlyDeploymentResult) prog" where
  "fly_deployInstance env user_id config =
     bind (fly_deploy_prepare env user_id) (\<lambda>(fly, appName, inst, port_no).
     try_catch (fly_deploy_steps env fly appName config inst port_no) (deploy_failed env inst))"

text \<open>Stop, start and restart.\<close>

definition fly_stopInstance :: "'cfg env \<Rightarrow> string \<Rightarrow> (world, unit) prog" where
  "fly_stopInstance env instance_id =
     bind (instance_findUnique_id env instance_id) (\<lambda>found.
     case found of
       None \<Rightarrow> throw (Error ''Instance not found'')
     | Some inst \<Rightarrow>
         if \<not> truthy (containerId inst) \<or> \<not> truthy (containerName inst)
         then throw (Error ''Instance missing Fly.io identifiers'')
         else
           bind (newFlyClient env) (\<lambda>fly.
           bind (stopMachine env fly (the (containerName inst)) (the (containerId inst))) (\<lambda>_.
           bind (instance_update env instance_id (\<lambda>r. r\<lparr>status := STOPPED\<rparr>)) (\<lambda>_.
           logDeployment env instance_id ''STOP'' ''SUCCESS'' ''Instance stopped'' None))))"

definition fly_startInstance :: "'cfg env \<Rightarrow> string \<Rightarrow> (world, unit) prog" where
  "fly_startInstance env instance_id =
     bind (instance_findUnique_id env instance_id) (\<lambda>found.
     case found of
       None \<Rightarrow> throw (Error ''Instance not found'')
     | Some inst \<Rightarrow>
         if \<not> truthy (containerId inst) \<or> \<not> truthy (containerName inst)
         then throw (Error ''Instance missing Fly.io identifiers'')
         else
           bind (newFlyClient env) (\<lambda>fly.
           bind (startMachine env fly (the (containerName inst)) (the (containerId inst))) (\<lambda>_.
           bind (instance_update env instance_id (\<lambda>r. r\<lparr>status := RUNNING\<rparr>)) (\<lambda>_.
           logDeployment env instance_id ''START'' ''SUCCESS'' ''Instance started'' None))))"

definition fly_restartInstance :: "'cfg env \<Rightarrow> string \<Rightarrow> (world, unit) prog" where
  "fly_restartInstance env instance_id =
     bind (instance_findUnique_id env instance_id) (\<lambda>found.
     case found of
       None \<Rightarrow> throw (Error ''Instance not found'')
     | Some inst \<Rightarrow>
         if \<not> truthy (containerId inst) \<or> \<not> truthy (containerName inst)
         then throw (Error ''Instance missing Fly.io identifiers'')
         else
           bind (instance_update env instance_id (\<lambda>r. r\<lparr>status := RESTARTING\<rparr>)) (\<lambda>_.
           bind (newFlyClient env) (\<lambda>fly.
           bind (restartMachine env fly (the (containerName inst)) (the (containerId inst))) (\<lambda>_.
           bind (instance_update env instance_id (\<lambda>r. r\<lparr>status := RUNNING\<rparr>)) (\<lambda>_.
           logDeployment env instance_id ''RESTART'' ''SUCCESS'' ''Instance restarted'' None)))))"

text \<open>\<open>checkInstanceHealth\<close>: the body of the \<open>try\<close>, then the function with its \<open>catch\<close>.\<close>

definition fly_checkInstanceHealth_try :: "'cfg env \<Rightarrow> string \<Rightarrow> (world, bool) prog" where
  "fly_checkInstanceHealth_try env instance_id =
     bind (instance_findUnique_id env instance_id) (\<lambda>found.
     case found of
       None \<Rightarrow> return False
     | Some inst \<Rightarrow>
         if \<not> truthy (containerId inst) \<or> \<not> truthy (containerName inst)
         then return False
         else
           bind (newFlyClient env) (\<lambda>fly.
           bind (getMachine env fly (the (containerName inst)) (the (containerId inst))) (\<lambda>machine.
           let isHealthy = (machine_state machine = ''started'' \<or> machine_state machine = ''running'') in
           bind dateNow (\<lambda>millis.
           bind (instance_update env instance_id
                   (\<lambda>r. r\<lparr>lastHealthCheck := Some millis,
                           status := (if isHealthy then RUNNING else ERROR)\<rparr>)) (\<lambda>_.
           return isHealthy)))))"

definition fly_checkInstanceHealth :: "'cfg env \<Rightarrow> string \<Rightarrow> (world, bool) prog" where
  "fly_checkInstanceHealth env instance_id =
     try_catch (fly_checkInstanceHealth_try env instance_id) (\<lambda>error. return False)"

section \<open>The Render orchestrator (\<open>lib/render/deploy.ts\<close>)\<close>

record RenderDeploymentResult =
  rr_instanceId :: string
  rr_serviceId :: string
  rr_serviceName :: string
  rr_port :: nat
  rr_accessUrl :: string
  rr_shellUrl :: string
  rr_status :: string

definition render_cleanup :: "'cfg env \<Rightarrow> RenderClient \<Rightarrow> Instance \<Rightarrow> (world, unit) prog" where
  "render_cleanup env render existing =
     try_catch
       (bind (if truthy (containerId existing)
              then deleteService env render (the (containerId existing))
              else return ())
          (\<lambda>_. instance_delete env (inst_id existing)))
       (\<lambda>err. return ())"

definition render_deploy_prepare ::
  "'cfg env \<Rightarrow> string \<Rightarrow> (world, RenderClient \<times> string \<times> Instance \<times> nat) prog" where
  "render_deploy_prepare env user_id =
     bind (newRenderClient env) (\<lambda>render.
     let serviceName = ''openclaw-'' @ slice0 user_id 8 in
     bind (instance_findUnique_userId env user_id) (\<lambda>existing.
     bind (case existing of None \<Rightarrow> return () | Some ex \<Rightarrow> render_cleanup env render ex) (\<lambda>_.
     bind (allocatePort env) (\<lambda>port_no.
     bind (instance_create env user_id serviceName port_no) (\<lambda>inst.
     bind (logDeployment env (inst_id inst) ''DEPLOY'' ''IN_PROGRESS'' ''Creating Render service...'' None) (\<lambda>_.
     return (render, serviceName, inst, port_no)))))))"

text \<open>
  The \<open>while (attempts < maxAttempts)\<close> loop with \<open>maxAttempts = 60\<close>: it leaves with the URL
  of the service as soon as there is one, and with \<open>''\<close> after sixty rounds.
\<close>

function pollServiceUrl :: "'cfg env \<Rightarrow> RenderClient \<Rightarrow> string \<Rightarrow> nat \<Rightarrow> (world, string) prog" where
  "pollServiceUrl env render serviceId attempts w =
     (if attempts < 60 then
        (case getService env render serviceId w of
           (Inl e, w1) \<Rightarrow> (Inl e, w1)
         | (Inr updatedService, w1) \<Rightarrow>
             if js_truthy (service_url updatedService) then (Inr (js_text (service_url updatedService)), w1)
             else pollServiceUrl env render serviceId (attempts + 1) (snd (sleep 5000 w1)))
      else (Inr [], w))"
  by pat_completeness auto
termination
  by (relation "measure (\<lambda>(env, render, serviceId, attempts, w). 60 - attempts)") auto

declare pollServiceUrl.simps [simp del]

definition render_provision ::
  "'cfg env \<Rightarrow> RenderClient \<Rightarrow> string \<Rightarrow> 'cfg \<Rightarrow> Instance
     \<Rightarrow> (world, string \<times> RenderService \<times> string \<times> string) prog" where
  "render_provision env render serviceName config inst =
     bind (sync (generateOpenClawConfig env config)) (\<lambda>openclawConfig.
     bind (sync (buildEnvironmentVariables env config)) (\<lambda>envVars.
     bind (cryptoRandomUUID env) (\<lambda>gateway_token.
     let serviceEnv = fold (\<lambda>(k, v). AList.update k v) envVars
                        [(''OPENCLAW_GATEWAY_TOKEN'', gateway_token),
                         (''OPENCLAW_CONFIG'', openclawConfig),
                         (''NODE_ENV'', ''production''),
                         (''OPENCLAW_WORKSPACE'', ''/home/node/.openclaw/workspace'')];
         startCommand = ''mkdir -p /home/node/.openclaw && echo \"$OPENCLAW_CONFIG\" > /home/node/.openclaw/openclaw.json && node dist/index.js gateway'' in
     bind (logDeployment env (inst_id inst) ''DEPLOY'' ''IN_PROGRESS'' ''Creating Render service...'' None) (\<lambda>_.
     bind (createService env render serviceName (OPENCLAW_IMAGE env) serviceEnv startCommand) (\<lambda>service.
     bind (instance_update env (inst_id inst)
             (\<lambda>r. r\<lparr>containerId := Some (service_id service),
                     gatewayToken := Some gateway_token\<rparr>)) (\<lambda>_.
     bind (logDeployment env (inst_id inst) ''DEPLOY'' ''IN_PROGRESS'' ''Waiting for deployment...'' None) (\<lambda>_.
     bind (sleep 10000) (\<lambda>_.
     bind (pollServiceUrl env render (service_id service) 0) (\<lambda>polledUrl.
     let serviceUrl' = (if polledUrl = [] then ''https://'' @ serviceName @ ''.onrender.com''
                        else polledUrl) in
     return (gateway_token, service, serviceUrl', getShellUrl (service_id service)))))))))))"

definition render_verify ::
  "'cfg env \<Rightarrow> string \<Rightarrow> Instance \<Rightarrow> nat \<Rightarrow> string \<Rightarrow> RenderService \<Rightarrow> string \<Rightarrow> string
     \<Rightarrow> (world, RenderDeploymentResult) prog" where
  "render_verify env serviceName inst port_no gateway_token service access_url shell_url =
     bind (logDeployment env (inst_id inst) ''DEPLOY'' ''IN_PROGRESS'' ''Verifying OpenClaw Gateway...'' None) (\<lambda>_.
     bind (sleep 20000) (\<lambda>_.
     bind (healthProbe env access_url gateway_token) (\<lambda>healthOk.
     bind (instance_update env (inst_id inst)
             (\<lambda>r. r\<lparr>status := (if healthOk then RUNNING else ERROR),
                     accessUrl := Some access_url,
                     serviceUrl := Some shell_url,
                     containerId := Some (service_id service)\<rparr>)) (\<lambda>_.
     bind (logDeployment env (inst_id inst) ''DEPLOY'' (if healthOk then ''SUCCESS'' else ''PARTIAL'')
             (if healthOk then ''Deployment completed''
              else ''Deployment completed but health check failed'') None) (\<lambda>_.
     return \<lparr>rr_instanceId = inst_id inst, rr_serviceId = service_id service,
              rr_serviceName = serviceName, rr_port = port_no, rr_accessUrl = access_url,
              rr_shellUrl = shell_url,
              rr_status = (if healthOk then ''RUNNING'' else ''ERROR'')\<rparr>)))))"

definition render_deploy_steps ::
  "'cfg env \<Rightarrow> RenderClient \<Rightarrow> string \<Rightarrow> 'cfg \<Rightarrow> Instance \<Rightarrow> nat
     \<Rightarrow> (world, RenderDeploymentResult) prog" where
  "render_deploy_steps env render serviceName config inst port_no =
     bind (render_provision env render serviceName config inst)
       (\<lambda>(gateway_token, service, access_url, shell_url).
     render_verify env serviceName inst port_no gateway_token service access_url shell_url)"

definition render_deployInstance ::
  "'cfg env \<Rightarrow> string \<Rightarrow> 'cfg \<Rightarrow> (world, RenderDeploymentResult) prog" where
  "render_deployInstance env user_id config =
     bind (render_deploy_prepare env user_id) (\<lambda>(render, serviceName, inst, port_no).
     try_catch (render_deploy_steps env render serviceName config inst port_no)
       (deploy_failed env inst))"

definition render_stopInstance :: "'cfg env \<Rightarrow> string \<Rightarrow> (world, unit) prog" where
  "render_stopInstance env instance_id =
     bind (instance_findUnique_id env instance_id) (\<lambda>found.
     case found of
       None \<Rightarrow> throw (Error ''Instance not found'')
     | Some inst \<Rightarrow>
         if \<not> truthy (containerId inst)
         then throw (Error ''Instance missing Render service ID'')
         else
           bind (newRenderClient env) (\<lambda>render.
           bind (suspendService env render (the (containerId inst))) (\<lambda>_.
           bind (instance_update env instance_id (\<lambda>r. r\<lparr>status := STOPPED\<rparr>)) (\<lambda>_.
           logDeployment env instance_id ''STOP'' ''SUCCESS'' ''Instance stopped'' None))))"

definition render_startInstance :: "'cfg env \<Rightarrow> string \<Rightarrow> (world, unit) prog" where
  "render_startInstance env instance_id =
     bind (instance_findUnique_id env instance_id) (\<lambda>found.
     case found of
       None \<Rightarrow> throw (Error ''Instance not found'')
     | Some inst \<Rightarrow>
         if \<not> truthy (containerId inst)
         then throw (Error ''Instance missing Render service ID'')
         else
           bind (newRenderClient env) (\<lambda>render.
           bind (resumeService env render (the (containerId inst))) (\<lambda>_.
           bind (instance_update env instance_id (\<lambda>r. r\<lparr>status := RUNNING\<rparr>)) (\<lambda>_.
           logDeployment env instance_id ''START'' ''SUCCESS'' ''Instance started'' None))))"

definition render_restartInstance :: "'cfg env \<Rightarrow> string \<Rightarrow> (world, unit) prog" where
  "render_restartInstance env instance_id =
     bind (instance_findUnique_id env instance_id) (\<lambda>found.
     case found of
       None \<Rightarrow> throw (Error ''Instance not found'')
     | Some inst \<Rightarrow>
         if \<not> truthy (containerId inst)
         then throw (Error ''Instance missing Render service ID'')
         else
           bind (instance_update env instance_id (\<lambda>r. r\<lparr>status := RESTARTING\<rparr>)) (\<lambda>_.
           bind (newRenderClient env) (\<lambda>render.
           bind (restartService env render (the (containerId inst))) (\<lambda>_.
           bind (instance_update env instance_id (\<lambda>r. r\<lparr>status := RUNNING\<rparr>)) (\<lambda>_.
           logDeployment env instance_id ''RESTART'' ''SUCCESS'' ''Instance restarted'' None)))))"

definition render_checkInstanceHealth_try :: "'cfg env \<Rightarrow> string \<Rightarrow> (world, bool) prog" where
  "render_checkInstanceHealth_try env instance_id =
     bind (instance_findUnique_id env instance_id) (\<lambda>found.
     case found of
       None \<Rightarrow> return False
     | Some inst \<Rightarrow>
         if \<not> truthy (containerId inst)
         then return False
         else
           bind (newRenderClient env) (\<lambda>render.
           bind (getService env render (the (containerId inst))) (\<lambda>service.
           let isHealthy = (suspended service = ''not_suspended'' \<and> service_url service \<noteq> JsUndefined) in
           bind dateNow (\<lambda>millis.
           bind (instance_update env instance_id
                   (\<lambda>r. r\<lparr>lastHealthCheck := Some millis,
                           status := (if isHealthy then RUNNING else ERROR)\<rparr>)) (\<lambda>_.
           return isHealthy)))))"

definition render_checkInstanceHealth :: "'cfg env \<Rightarrow> string \<Rightarrow> (world, bool) prog" where
  "render_checkInstanceHealth env instance_id =
     try_catch (render_checkInstanceHealth_try env instance_id) (\<lambda>error. return False)"

section \<open>Notions used in the statements\<close>

text \<open>
  The answer to the \<open>k\<close>-th poll of a wait that starts in world \<open>w\<close>; whether the loop goes
  on after an answer; and what the loop does with an answer it does not go on after.
\<close>

definition fly_poll :: "'cfg env \<Rightarrow> string \<Rightarrow> string \<Rightarrow> world \<Rightarrow> nat \<Rightarrow> error + FlyMachine" where
  "fly_poll env appName mid w k = machine_res env (length (trace w) + k) (GetMachine appName mid)"

definition fly_pending :: "string \<Rightarrow> error + FlyMachine \<Rightarrow> bool" where
  "fly_pending targetState answer =
     (case answer of
        Inl e \<Rightarrow> False
      | Inr machine \<Rightarrow> machine_state machine \<noteq> targetState
                       \<and> machine_state machine \<noteq> ''failed''
                       \<and> machine_state machine \<noteq> ''destroyed'')"

definition fly_settle :: "string \<Rightarrow> error + FlyMachine \<Rightarrow> error + unit" where
  "fly_settle targetState answer =
     (case answer of
        Inl e \<Rightarrow> Inl e
      | Inr machine \<Rightarrow> if machine_state machine = targetState then Inr ()
                       else Inl (Error (''Machine entered terminal state: '' @ machine_state machine)))"




text \<open>
  The time that a number of polls and a number of sleeps of \<open>interval\<close> milliseconds take,
  for a wait that starts in world \<open>w\<close>.
\<close>

definition elapsed :: "'cfg env \<Rightarrow> world \<Rightarrow> nat \<Rightarrow> nat \<Rightarrow> nat \<Rightarrow> nat" where
  "elapsed env w interval polls sleeps =
     (\<Sum>j<polls. latency env (length (trace w) + j)) + interval * sleeps"

text \<open>
  Two worlds have the same keys when their \<open>Instance\<close> tables list the same \<open>(id, userId)\<close>
  pairs; a program keeps the keys when every run of it does. \<open>sole_row\<close> says that the row
  with the given id exists and is the only row of the given user.
\<close>

definition same_keys :: "world \<Rightarrow> world \<Rightarrow> bool" where
  "same_keys w w' =
     (map (\<lambda>r. (inst_id r, userId r)) (instances w') = map (\<lambda>r. (inst_id r, userId r)) (instances w))"

definition keeps_keys :: "(world, 'a) prog \<Rightarrow> bool" where
  "keeps_keys m = (\<forall>w. same_keys w (snd (m w)))"

definition sole_row :: "string \<Rightarrow> string \<Rightarrow> world \<Rightarrow> bool" where
  "sole_row user_id instance_id w =
     ((\<exists>r \<in> set (instances w). inst_id r = instance_id)
      \<and> (\<forall>r \<in> set (instances w). (userId r = user_id) = (inst_id r = instance_id)))"

section \<open>Sample environments\<close>

text \<open>
  An environment in which every call succeeds at once: the machine is \<open>started\<close>, the service
  is live, the gateway answers 200. The examples below change one oracle at a time.
\<close>

definition calm_env :: "unit env" where
  "calm_env =
     \<lparr>FLY_API_TOKEN = Some ''fo1_token'', FLY_ORG_SLUG = Some ''personal'',
      RENDER_API_KEY = Some ''rnd_key'', OPENCLAW_IMAGE_VAR = None,
      latency = (\<lambda>n. 0),
      void_res = (\<lambda>n c. None),
      exec_res = (\<lambda>n c. Inr ([], [])),
      machine_res = (\<lambda>n c. Inr \<lparr>machine_id = ''m1'', machine_state = ''started''\<rparr>),
      machines_res = (\<lambda>n c. Inr []),
      logs_res = (\<lambda>n c. Inr None),
      service_res = (\<lambda>n c. Inr \<lparr>service_id = ''srv-1'', service_name = ''openclaw-user-1'',
                                 suspended = ''not_suspended'',
                                 service_url = JsString ''https://openclaw-user-1.onrender.com''\<rparr>),
      deploy_res = (\<lambda>n c. Inr \<lparr>deploy_id = ''dep-1'', deploy_status = ''live''\<rparr>),
      fetch_res = (\<lambda>n c. Inr True),
      port_res = (\<lambda>n c. Inr 20001),
      cuid = (\<lambda>n. ''inst-1''),
      randomUUID = (\<lambda>n. ''uuid-1''),
      generateOpenClawConfig = (\<lambda>c. Inr ''{}''),
      buildEnvironmentVariables = (\<lambda>c. Inr []),
      JSON_parse_devices = (\<lambda>s. None)\<rparr>"

definition empty_world :: world where
  "empty_world = \<lparr>instances = [], deploymentLogs = [], now = 0, trace = []\<rparr>"

text \<open>The text format that the comment in \<open>listPendingDevices\<close> gives, with two requests.\<close>

definition two_requests_text :: string where
  "two_requests_text =
     ''Request ID: abc123'' @ [CHR 0x0A] @
     ''Channel: whatsapp'' @ [CHR 0x0A] @
     ''Identifier: +1234567890'' @ [CHR 0x0A] @
     ''Timestamp: 2026-02-06T10:30:00Z'' @ [CHR 0x0A] @
     ''Request ID: def456'' @ [CHR 0x0A] @
     ''Channel: telegram'' @ [CHR 0x0A] @
     ''Identifier: bob'' @ [CHR 0x0A] @
     ''Timestamp: 2026-02-06T11:45:10Z'' @ [CHR 0x0A]"

text \<open>An environment in which the list sub-command prints that text, which is not JSON.\<close>

definition two_requests_env :: "unit env" where
  "two_requests_env = calm_env\<lparr>exec_res := (\<lambda>n c. Inr (two_requests_text, []))\<rparr>"

text \<open>An environment in which the approve sub-command prints an error on standard output.\<close>

definition stdout_error_env :: "unit env" where
  "stdout_error_env = calm_env\<lparr>exec_res := (\<lambda>n c. Inr (''error: unknown requestId'', []))\<rparr>"

text \<open>An environment in which it prints a failure on standard error.\<close>

definition stderr_failed_env :: "unit env" where
  "stderr_failed_env =
     calm_env\<lparr>exec_res := (\<lambda>n c. Inr (''Approving req-1'', ''pairing failed''))\<rparr>"

text \<open>An environment in which the logs endpoint answers 500.\<close>

definition logs_down_env :: "unit env" where
  "logs_down_env = calm_env\<lparr>logs_res := (\<lambda>n c. Inl (Error ''Fly.io API error 500: ''))\<rparr>"

definition sample_fly :: FlyClient where
  "sample_fly = \<lparr>fly_token = ''fo1_token'', fly_orgSlug = ''personal''\<rparr>"

text \<open>Environments in which the machine is in one state for ever, and one with a failed build.\<close>

definition failed_machine_env :: "unit env" where
  "failed_machine_env = calm_env\<lparr>machine_res := (\<lambda>n c. Inr \<lparr>machine_id = ''m1'', machine_state = ''failed''\<rparr>)\<rparr>"




definition sample_render :: RenderClient where
  "sample_render = \<lparr>render_apiKey = ''rnd_key''\<rparr>"

text \<open>An environment in which the port allocator fails.\<close>

definition port_down_env :: "unit env" where
  "port_down_env = calm_env\<lparr>port_res := (\<lambda>n c. Inl (Error ''No free port''))\<rparr>"

text \<open>Environments in which the gateway answers 500, and in which creating the resource fails.\<close>

definition probe_down_env :: "unit env" where
  "probe_down_env = calm_env\<lparr>fetch_res := (\<lambda>n c. Inr False)\<rparr>"

definition create_down_env :: "unit env" where
  "create_down_env =
     calm_env\<lparr>machine_res := (\<lambda>n c. Inl (Error ''Fly.io API error 422: no capacity'')),
               service_res := (\<lambda>n c. Inl (Error ''Render API error 402: payment required''))\<rparr>"

text \<open>
  An environment in which creating the resource fails and, from then on, the database is
  out of reach: every call after the first ten that answers nothing fails.
\<close>

definition handler_down_env :: "unit env" where
  "handler_down_env =
     create_down_env\<lparr>void_res := (\<lambda>n c. if 10 \<le> n then Some (Error ''Connection lost'') else None)\<rparr>"


text \<open>An environment in which the service is not suspended and its \<open>url\<close> is \<open>null\<close>.\<close>

definition null_url_env :: "unit env" where
  "null_url_env =
     calm_env\<lparr>service_res := (\<lambda>n c. Inr \<lparr>service_id = ''srv-1'', service_name = ''openclaw-user-1'',
                                          suspended = ''not_suspended'', service_url = JsNull\<rparr>)\<rparr>"

text \<open>
  Worlds with one row: a row without container name, a placeholder row without container
  id, and a row with both identifiers.
\<close>

definition nameless_world :: world where
  "nameless_world =
     \<lparr>instances = [\<lparr>inst_id = ''inst-1'', userId = ''user-1'', containerId = Some ''srv-1'',
                     containerName = None, port = 20001, status = RUNNING,
                     accessUrl = None, serviceUrl = None, gatewayToken = None,
                     lastHealthCheck = None\<rparr>],
      deploymentLogs = [], now = 0, trace = []\<rparr>"

definition placeholder_world :: world where
  "placeholder_world =
     \<lparr>instances = [\<lparr>inst_id = ''inst-1'', userId = ''user-1'', containerId = None,
                     containerName = Some ''openclaw-user-1'', port = 20001, status = DEPLOYING,
                     accessUrl = None, serviceUrl = None, gatewayToken = None,
                     lastHealthCheck = None\<rparr>],
      deploymentLogs = [], now = 0, trace = []\<rparr>"

definition running_world :: world where
  "running_world =
     \<lparr>instances = [\<lparr>inst_id = ''inst-1'', userId = ''user-1'', containerId = Some ''m1'',
                     containerName = Some ''openclaw-user-1'', port = 20001, status = STOPPED,
                     accessUrl = None, serviceUrl = None, gatewayToken = None,
                     lastHealthCheck = None\<rparr>],
      deploymentLogs = [], now = 7, trace = []\<rparr>"

section \<open>Basic facts\<close>

lemmas prog_defs = bind_def return_def throw_def try_catch_def extern_def void_oracle_def
  sleep_def dateNow_def cryptoRandomUUID_def sync_def

lemmas run_defs = prog_defs truthy_def instance_findUnique_id_def instance_findUnique_userId_def
  instance_update_def instance_create_def instance_delete_def logDeployment_def newFlyClient_def newRenderClient_def

lemma bind_InrE:
  assumes "bind m f w = (Inr y, w')"
  obtains x w1 where "m w = (Inr x, w1)" "f x w1 = (Inr y, w')"
  using assms by (auto simp: bind_def split: prod.splits sum.splits)

lemma isl_bind:
  "isl (fst (bind m k w)) = (case m w of (Inl e, w1) \<Rightarrow> True | (Inr x, w1) \<Rightarrow> isl (fst (k x w1)))"
  by (auto simp: bind_def split: prod.splits sum.splits)

lemma logDeployment_run:
  "logDeployment env i a s m e w =
     (case void_res env (length (trace w)) (DbLogCreate i) of
        Some err \<Rightarrow> (Inl err, w\<lparr>now := now w + latency env (length (trace w)), trace := trace w @ [DbLogCreate i]\<rparr>)
      | None \<Rightarrow> (Inr (), w\<lparr>now := now w + latency env (length (trace w)), trace := trace w @ [DbLogCreate i],
                           deploymentLogs := deploymentLogs w @ [\<lparr>log_instanceId = i, log_action = a,
                               log_status = s, log_message = m, log_error = e\<rparr>]\<rparr>))"
  by (simp add: logDeployment_def prog_defs split: option.splits)

lemma instance_update_run:
  "instance_update env i data w =
     (case void_res env (length (trace w)) (DbUpdate i) of
        Some err \<Rightarrow> (Inl err, w\<lparr>now := now w + latency env (length (trace w)), trace := trace w @ [DbUpdate i]\<rparr>)
      | None \<Rightarrow>
          if \<exists>r\<in>set (instances w). inst_id r = i
          then (Inr (), w\<lparr>now := now w + latency env (length (trace w)), trace := trace w @ [DbUpdate i],
                          instances := map (\<lambda>r. if inst_id r = i then data r else r) (instances w)\<rparr>)
          else (Inl (Error ''Record to update not found.''),
                w\<lparr>now := now w + latency env (length (trace w)), trace := trace w @ [DbUpdate i]\<rparr>))"
  by (simp add: instance_update_def prog_defs split: option.splits)

lemma logDeployment_Inr:
  assumes "logDeployment env iid a s m e w = (Inr x, w')"
  shows "instances w' = instances w \<and> trace w' = trace w @ [DbLogCreate iid]
         \<and> deploymentLogs w' = deploymentLogs w @ [\<lparr>log_instanceId = iid, log_action = a,
                    log_status = s, log_message = m, log_error = e\<rparr>]"
  using assms by (auto simp: logDeployment_def prog_defs split: option.splits)

lemma instance_update_Inr:
  assumes "instance_update env iid data w = (Inr x, w')"
  shows "instances w' = map (\<lambda>r. if inst_id r = iid then data r else r) (instances w)
         \<and> trace w' = trace w @ [DbUpdate iid] \<and> deploymentLogs w' = deploymentLogs w"
  using assms by (auto simp: instance_update_def prog_defs split: option.splits if_splits)

lemma sleep_run: "sleep ms w = (r, w') \<Longrightarrow> instances w' = instances w \<and> trace w' = trace w"
  by (auto simp: sleep_def)

lemma healthProbe_run:
  "healthProbe env url tok w =
     (Inr (fetch_res env (length (trace w)) (Fetch (url @ ''/health'') tok) = Inr True),
      w\<lparr>now := now w + latency env (length (trace w)), trace := trace w @ [Fetch (url @ ''/health'') tok]\<rparr>)"
  by (auto simp: healthProbe_def prog_defs split: sum.splits)

lemma findUnique_id_world:
  "instance_findUnique_id env iid w = (r, w1) \<Longrightarrow> instances w1 = instances w \<and> deploymentLogs w1 = deploymentLogs w"
  by (auto simp: instance_findUnique_id_def prog_defs split: option.splits)

lemma str_includes_sublist: "str_includes s p = sublist p s"
  by (induction s) (auto simp: sublist_Cons_right)

section \<open>The command proxy\<close>

text \<open>
  C5, as the code has it. Whatever the approve sub-command returns as \<open>(stdout, stderr)\<close>,
  \<open>approveDevice\<close> returns \<open>success = true\<close> if and only if \<open>stderr\<close> contains neither
  \<open>error\<close> nor \<open>failed\<close> (case-sensitive); \<open>stdout\<close> is not inspected and only goes into the
  message.
\<close>

theorem approveDevice_success_from_stderr:
  assumes "executeSSHCommand env appName (''openclaw devices approve '' @ rid) None w
             = (Inr (stdout, stderr), w')"
  shows "approveDevice env appName rid w =
           (Inr \<lparr>success = (\<not> str_includes stderr ''error'' \<and> \<not> str_includes stderr ''failed''),
                 approval_message = stdout @ stderr\<rparr>, w')"
  using assms by (simp add: approveDevice_def bind_def return_def)

theorem approveDevice_success_from_stderr_witness:
  "fst (approveDevice stderr_failed_env ''openclaw-user-1'' ''req-1'' empty_world) =
     Inr \<lparr>success = False, approval_message = ''Approving req-1pairing failed''\<rparr>"
proof -
  have run: "executeSSHCommand stderr_failed_env ''openclaw-user-1''
               (''openclaw devices approve '' @ ''req-1'') None empty_world
             = (Inr (''Approving req-1'', ''pairing failed''),
                snd (executeSSHCommand stderr_failed_env ''openclaw-user-1''
                       (''openclaw devices approve '' @ ''req-1'') None empty_world))"
    by (simp add: executeSSHCommand_def stderr_failed_env_def calm_env_def empty_world_def prog_defs)
  from approveDevice_success_from_stderr [OF run] show ?thesis
    by simp
qed

text \<open>
  C5 as stated fails: the sub-command prints \<open>error: unknown requestId\<close> on standard output
  and nothing on standard error, and \<open>approveDevice\<close> reports success.
\<close>

theorem approveDevice_stdout_counterexample:
  "fst (executeSSHCommand stdout_error_env ''openclaw-user-1''
          ''openclaw devices approve req-1'' None empty_world)
     = Inr (''error: unknown requestId'', [])
   \<and> str_includes ''error: unknown requestId'' ''error''
   \<and> fst (approveDevice stdout_error_env ''openclaw-user-1'' ''req-1'' empty_world)
     = Inr \<lparr>success = True, approval_message = ''error: unknown requestId''\<rparr>"
  by (simp add: approveDevice_def executeSSHCommand_def stdout_error_env_def calm_env_def
        empty_world_def prog_defs)

text \<open>
  C6 on the format that the source's own comment documents. The text is not JSON and has two
  \<open>Request ID:\<close> blocks; \<open>listPendingDevices\<close> returns two records, but each \<open>timestamp\<close> is
  cut at the first colon of the time of day, because \<open>split(':')[1]\<close> is the piece between the
  first two colons of the line.
\<close>

theorem listPendingDevices_timestamp_truncated:
  "JSON_parse_devices two_requests_env two_requests_text = None
   \<and> fst (listPendingDevices two_requests_env ''openclaw-user-1'' empty_world) =
     Inr [\<lparr>requestId = Some ''abc123'', channel = Some ''whatsapp'',
            identifier' = Some ''+1234567890'', timestamp = Some ''2026-02-06T10''\<rparr>,
          \<lparr>requestId = Some ''def456'', channel = Some ''telegram'',
            identifier' = Some ''bob'', timestamp = Some ''2026-02-06T11''\<rparr>]"
proof -
  have parsed: "parseDevicesText two_requests_text =
     [\<lparr>requestId = Some ''abc123'', channel = Some ''whatsapp'',
       identifier' = Some ''+1234567890'', timestamp = Some ''2026-02-06T10''\<rparr>,
      \<lparr>requestId = Some ''def456'', channel = Some ''telegram'',
       identifier' = Some ''bob'', timestamp = Some ''2026-02-06T11''\<rparr>]"
    by code_simp
  show ?thesis
    by (simp add: listPendingDevices_def executeSSHCommand_def two_requests_env_def calm_env_def
          empty_world_def prog_defs parsed)
qed

text \<open>
  C7. \<open>executeOpenClawCommand\<close> hands \<open>openclaw\<close> followed by the sanitised command to
  \<open>executeSSHCommand\<close>; the sanitised command is the input without the characters
  \<open>; & | ` $ ( )\<close>, the other characters kept in order, and the forwarded command contains none
  of the seven.
\<close>

theorem executeOpenClawCommand_strips_metacharacters:
  "executeOpenClawCommand env appName command =
     executeSSHCommand env appName (''openclaw '' @ sanitize command) None
   \<and> sanitize command = filter (\<lambda>c. c \<notin> set '';&|`$()'') command
   \<and> (\<forall>c \<in> set '';&|`$()''. c \<notin> set (''openclaw '' @ sanitize command))"
  by (auto simp: executeOpenClawCommand_def sanitize_def)

theorem executeOpenClawCommand_strips_metacharacters_witness:
  "sanitize ''health; rm -rf /'' = ''health rm -rf /''
   \<and> CHR '';'' \<notin> set (''openclaw '' @ sanitize ''health; rm -rf /'')"
  using executeOpenClawCommand_strips_metacharacters [of calm_env "''openclaw-user-1''" "''health; rm -rf /''"]
  by simp

section \<open>The Fly.io client\<close>

text \<open>
  C10. \<open>getMachineLogs\<close> always returns a string: the fixed failure text when the logs request
  throws, \<open>No logs available\<close> when the answer has no or an empty \<open>logs\<close> field, and the logs
  otherwise.
\<close>

theorem getMachineLogs_never_throws:
  "(\<exists>content. fst (getMachineLogs env fly appName mid limit w) = Inr content)
   \<and> (\<forall>e. logs_res env (length (trace w)) (GetMachineLogsReq appName mid limit) = Inl e
        \<longrightarrow> fst (getMachineLogs env fly appName mid limit w)
              = Inr ''Failed to fetch logs. Use flyctl logs instead.'')
   \<and> (logs_res env (length (trace w)) (GetMachineLogsReq appName mid limit) \<in> {Inr None, Inr (Some [])}
        \<longrightarrow> fst (getMachineLogs env fly appName mid limit w) = Inr ''No logs available'')"
  by (auto simp: getMachineLogs_def prog_defs split: sum.splits option.splits)

theorem getMachineLogs_never_throws_witness:
  "fst (getMachineLogs logs_down_env sample_fly ''openclaw-user-1'' ''m1'' 100 empty_world)
     = Inr ''Failed to fetch logs. Use flyctl logs instead.''
   \<and> fst (getMachineLogs calm_env sample_fly ''openclaw-user-1'' ''m1'' 100 empty_world)
     = Inr ''No logs available''"
proof -
  have down: "logs_res logs_down_env (length (trace empty_world))
                (GetMachineLogsReq ''openclaw-user-1'' ''m1'' 100) = Inl (Error ''Fly.io API error 500: '')"
    by (simp add: logs_down_env_def calm_env_def)
  have none: "logs_res calm_env (length (trace empty_world))
                (GetMachineLogsReq ''openclaw-user-1'' ''m1'' 100) \<in> {Inr None, Inr (Some [])}"
    by (simp add: calm_env_def)
  from down none
    getMachineLogs_never_throws [of logs_down_env sample_fly "''openclaw-user-1''" "''m1''" 100 empty_world]
    getMachineLogs_never_throws [of calm_env sample_fly "''openclaw-user-1''" "''m1''" 100 empty_world]
  show ?thesis by blast
qed

section \<open>Waiting for a state\<close>

lemma elapsed_shift:
  assumes "length (trace w2) = Suc (length (trace w))"
  shows "elapsed env w interval (Suc p) (Suc s) = latency env (length (trace w)) + interval + elapsed env w2 interval p s"
  using assms by (simp add: elapsed_def sum.lessThan_Suc_shift del: sum.lessThan_Suc)

lemma fly_poll_shift:
  assumes "length (trace w2) = Suc (length (trace w))"
  shows "fly_poll env a m w2 k = fly_poll env a m w (Suc k)"
  using assms by (simp add: fly_poll_def)

lemma getMachine_world:
  "getMachine env fly a m w = (fly_poll env a m w 0, w\<lparr>now := now w + latency env (length (trace w)), trace := trace w @ [GetMachine a m]\<rparr>)"
  by (simp add: getMachine_def extern_def fly_poll_def)

lemma waitForMachineState_loop_cases:
  "waitForMachineState_loop env fly a m target T start w = (r, w') \<Longrightarrow>
     \<exists>n. (\<forall>k<n. fly_pending target (fly_poll env a m w k)) \<and>
         (r = Inl (Error (''Timeout waiting for machine to reach state: '' @ target))
            \<and> trace w' = trace w @ replicate n (GetMachine a m)
            \<and> now w' = now w + elapsed env w 3000 n n
            \<and> T \<le> int (now w') - int start
          \<or> \<not> fly_pending target (fly_poll env a m w n)
            \<and> trace w' = trace w @ replicate (Suc n) (GetMachine a m)
            \<and> now w' = now w + elapsed env w 3000 (Suc n) n
            \<and> r = fly_settle target (fly_poll env a m w n))"
proof (induction env fly a m target T start w arbitrary: r w' rule: waitForMachineState_loop.induct)
  case (1 env fly a m target T start w)
  let ?c = "GetMachine a m"
  let ?w1 = "w\<lparr>now := now w + latency env (length (trace w)), trace := trace w @ [?c]\<rparr>"
  show ?case
  proof (cases "int (now w) - int start < T")
    case False
    with 1(2) have "r = Inl (Error (''Timeout waiting for machine to reach state: '' @ target))" "w' = w"
      by (simp_all add: waitForMachineState_loop.simps[of env fly a m target T start w])
    with False show ?thesis
      by (intro exI[of _ 0]) (simp add: elapsed_def)
  next
    case True
    show ?thesis
    proof (cases "fly_pending target (fly_poll env a m w 0)")
      case False
      with True 1(2) have "r = fly_settle target (fly_poll env a m w 0)" "w' = ?w1"
        by (auto simp: waitForMachineState_loop.simps[of env fly a m target T start w]
              getMachine_world fly_pending_def fly_settle_def split: sum.splits if_splits)
      with False show ?thesis
        by (intro exI[of _ 0]) (simp add: elapsed_def)
    next
      case pend: True
      then obtain machine where machine: "fly_poll env a m w 0 = Inr machine"
        "machine_state machine \<noteq> target" "machine_state machine \<noteq> ''failed''"
        "machine_state machine \<noteq> ''destroyed''"
        by (auto simp: fly_pending_def split: sum.splits)
      let ?w2 = "snd (sleep 3000 ?w1)"
      have len: "length (trace ?w2) = Suc (length (trace w))"
        by (simp add: sleep_def)
      from True machine 1(2) have rec: "waitForMachineState_loop env fly a m target T start ?w2 = (r, w')"
        by (simp add: waitForMachineState_loop.simps[of env fly a m target T start w] getMachine_world)
      have gm: "getMachine env fly a m w = (Inr machine, ?w1)"
        by (simp add: getMachine_world machine)
      from 1(1)[OF True gm[symmetric] refl machine(2) _ rec] machine(3,4)
      obtain n where n: "\<forall>k<n. fly_pending target (fly_poll env a m ?w2 k)"
        "r = Inl (Error (''Timeout waiting for machine to reach state: '' @ target))
            \<and> trace w' = trace ?w2 @ replicate n ?c
            \<and> now w' = now ?w2 + elapsed env ?w2 3000 n n
            \<and> T \<le> int (now w') - int start
          \<or> \<not> fly_pending target (fly_poll env a m ?w2 n)
            \<and> trace w' = trace ?w2 @ replicate (Suc n) ?c
            \<and> now w' = now ?w2 + elapsed env ?w2 3000 (Suc n) n
            \<and> r = fly_settle target (fly_poll env a m ?w2 n)"
        by blast
      have tr2: "trace ?w2 = trace w @ [?c]" and now2: "now ?w2 = now w + latency env (length (trace w)) + 3000"
        by (simp_all add: sleep_def)
      have pending: "\<forall>k<Suc n. fly_pending target (fly_poll env a m w k)"
      proof (intro allI impI)
        fix k assume "k < Suc n"
        show "fly_pending target (fly_poll env a m w k)"
        proof (cases k)
          case 0 with pend show ?thesis by simp
        next
          case (Suc j)
          with \<open>k < Suc n\<close> n(1) have "fly_pending target (fly_poll env a m ?w2 j)" by simp
          with Suc show ?thesis by (simp add: fly_poll_shift[OF len])
        qed
      qed
      from n(2) show ?thesis
      proof
        assume A: "r = Inl (Error (''Timeout waiting for machine to reach state: '' @ target))
            \<and> trace w' = trace ?w2 @ replicate n ?c
            \<and> now w' = now ?w2 + elapsed env ?w2 3000 n n
            \<and> T \<le> int (now w') - int start"
        then have "now w' = now w + elapsed env w 3000 (Suc n) (Suc n)"
          by (simp only: elapsed_shift[OF len] now2) 
        moreover from A have "trace w' = trace w @ replicate (Suc n) ?c"
          by (simp only: tr2) simp
        ultimately show ?thesis using A pending
          by (intro exI[of _ "Suc n"]) blast
      next
        assume B: "\<not> fly_pending target (fly_poll env a m ?w2 n)
            \<and> trace w' = trace ?w2 @ replicate (Suc n) ?c
            \<and> now w' = now ?w2 + elapsed env ?w2 3000 (Suc n) n
            \<and> r = fly_settle target (fly_poll env a m ?w2 n)"
        then have "now w' = now w + elapsed env w 3000 (Suc (Suc n)) (Suc n)"
          by (simp only: elapsed_shift[OF len] now2) 
        moreover from B have "trace w' = trace w @ replicate (Suc (Suc n)) ?c"
          by (simp only: tr2) simp
        moreover from B have "\<not> fly_pending target (fly_poll env a m w (Suc n))"
          "r = fly_settle target (fly_poll env a m w (Suc n))"
          by (simp_all add: fly_poll_shift[OF len])
        ultimately show ?thesis using pending
          by (intro exI[of _ "Suc n"]) blast
      qed
    qed
  qed
qed




lemmas wait_eval = waitForMachineState_def waitForMachineState_loop.simps waitForDeploy_def waitForDeploy_loop.simps
  getMachine_def getDeploy_def extern_def sleep_def calm_env_def empty_world_def




text \<open>
  C9. When the target state of \<open>waitForMachineState\<close> is \<open>failed\<close> or \<open>destroyed\<close> and a poll
  it makes observes that state, it returns, and that poll is the last one: the comparison
  with the target comes before the test for a terminal state.
\<close>

theorem waitForMachineState_target_checked_first:
  assumes target: "target = ''failed'' \<or> target = ''destroyed''"
    and run: "waitForMachineState env fly a m target T w = (r, w')"
    and made: "k < length (trace w') - length (trace w)"
    and seen: "fly_poll env a m w k = Inr machine" "machine_state machine = target"
  shows "r = Inr () \<and> length (trace w') = length (trace w) + Suc k"
proof -
  from run have "waitForMachineState_loop env fly a m target T (now w) w = (r, w')"
    by (simp add: waitForMachineState_def)
  from waitForMachineState_loop_cases[OF this] obtain n0 where
    pend: "\<forall>k<n0. fly_pending target (fly_poll env a m w k)"
    and alt: "r = Inl (Error (''Timeout waiting for machine to reach state: '' @ target))
            \<and> trace w' = trace w @ replicate n0 (GetMachine a m)
            \<and> now w' = now w + elapsed env w 3000 n0 n0
            \<and> T \<le> int (now w') - int (now w)
          \<or> \<not> fly_pending target (fly_poll env a m w n0)
            \<and> trace w' = trace w @ replicate (Suc n0) (GetMachine a m)
            \<and> now w' = now w + elapsed env w 3000 (Suc n0) n0
            \<and> r = fly_settle target (fly_poll env a m w n0)"
    by blast
  from seen have np: "\<not> fly_pending target (fly_poll env a m w k)"
    by (simp add: fly_pending_def)
  from alt show ?thesis
  proof
    assume "r = Inl (Error (''Timeout waiting for machine to reach state: '' @ target))
            \<and> trace w' = trace w @ replicate n0 (GetMachine a m)
            \<and> now w' = now w + elapsed env w 3000 n0 n0
            \<and> T \<le> int (now w') - int (now w)"
    with made have "k < n0" by simp
    with pend np have False by simp
    then show ?thesis ..
  next
    assume B: "\<not> fly_pending target (fly_poll env a m w n0)
            \<and> trace w' = trace w @ replicate (Suc n0) (GetMachine a m)
            \<and> now w' = now w + elapsed env w 3000 (Suc n0) n0
            \<and> r = fly_settle target (fly_poll env a m w n0)"
    with made have "k < Suc n0" by simp
    with pend np have "k = n0" by (metis less_antisym)
    with B seen show ?thesis by (simp add: fly_settle_def)
  qed
qed

theorem waitForMachineState_target_checked_first_witness:
  "fst (waitForMachineState failed_machine_env sample_fly ''openclaw-user-1'' ''m1'' ''failed'' 120000 empty_world) = Inr ()"
proof -
  let ?a = "''openclaw-user-1''" and ?m = "''m1''"
  let ?run = "waitForMachineState failed_machine_env sample_fly ?a ?m ''failed'' 120000 empty_world"
  have made: "0 < length (trace (snd ?run)) - length (trace empty_world)"
    by (simp add: wait_eval failed_machine_env_def)
  have seen: "fly_poll failed_machine_env ?a ?m empty_world 0 = Inr \<lparr>machine_id = ''m1'', machine_state = ''failed''\<rparr>"
    by (simp add: fly_poll_def failed_machine_env_def)
  from waitForMachineState_target_checked_first[where target="''failed''" and env=failed_machine_env
      and fly=sample_fly and a="?a" and m="?m" and T=120000 and w=empty_world and k=0
      and r="fst ?run" and w'="snd ?run", OF _ prod.collapse[symmetric] made seen]
  show ?thesis by simp
qed

section \<open>Stop, start, restart and the health check\<close>

text \<open>
  C4, as the code has it. For an instance that is found, the Fly.io operations fail with
  \<open>Instance missing Fly.io identifiers\<close> unless both \<open>containerId\<close> and \<open>containerName\<close> are
  set, and the Render operations fail with \<open>Instance missing Render service ID\<close> unless
  \<open>containerId\<close> is set (Render does not look at \<open>containerName\<close>). In both cases no table is
  written: the status stays what it was, and \<open>restartInstance\<close> does not write \<open>RESTARTING\<close>.
\<close>

theorem lifecycle_missing_identifiers:
  assumes found: "instance_findUnique_id env iid w = (Inr (Some inst), w1)"
  shows "(\<not> (truthy (containerId inst) \<and> truthy (containerName inst)) \<longrightarrow>
            fly_stopInstance env iid w = (Inl (Error ''Instance missing Fly.io identifiers''), w1)
          \<and> fly_startInstance env iid w = (Inl (Error ''Instance missing Fly.io identifiers''), w1)
          \<and> fly_restartInstance env iid w = (Inl (Error ''Instance missing Fly.io identifiers''), w1))
       \<and> (\<not> truthy (containerId inst) \<longrightarrow>
            render_stopInstance env iid w = (Inl (Error ''Instance missing Render service ID''), w1)
          \<and> render_startInstance env iid w = (Inl (Error ''Instance missing Render service ID''), w1)
          \<and> render_restartInstance env iid w = (Inl (Error ''Instance missing Render service ID''), w1))
       \<and> instances w1 = instances w \<and> deploymentLogs w1 = deploymentLogs w"
  using found findUnique_id_world[OF found]
  by (simp add: fly_stopInstance_def fly_startInstance_def fly_restartInstance_def
        render_stopInstance_def render_startInstance_def render_restartInstance_def bind_def throw_def)

theorem lifecycle_missing_identifiers_witness:
  "fly_stopInstance calm_env ''inst-1'' placeholder_world
     = (Inl (Error ''Instance missing Fly.io identifiers''), placeholder_world\<lparr>trace := [DbFindUnique ''inst-1'']\<rparr>)
   \<and> fly_restartInstance calm_env ''inst-1'' placeholder_world
     = (Inl (Error ''Instance missing Fly.io identifiers''), placeholder_world\<lparr>trace := [DbFindUnique ''inst-1'']\<rparr>)
   \<and> render_restartInstance calm_env ''inst-1'' placeholder_world
     = (Inl (Error ''Instance missing Render service ID''), placeholder_world\<lparr>trace := [DbFindUnique ''inst-1'']\<rparr>)
   \<and> map status (instances (placeholder_world\<lparr>trace := [DbFindUnique ''inst-1'']\<rparr>)) = [DEPLOYING]"
proof -
  have found: "instance_findUnique_id calm_env ''inst-1'' placeholder_world
                = (Inr (Some (hd (instances placeholder_world))),
                   placeholder_world\<lparr>trace := [DbFindUnique ''inst-1'']\<rparr>)"
    by (simp add: placeholder_world_def calm_env_def run_defs)
  have missing: "\<not> (truthy (containerId (hd (instances placeholder_world)))
                     \<and> truthy (containerName (hd (instances placeholder_world))))"
    "\<not> truthy (containerId (hd (instances placeholder_world)))"
    by (simp_all add: placeholder_world_def truthy_def)
  from lifecycle_missing_identifiers[OF found] missing show ?thesis
    by (simp add: placeholder_world_def)
qed

text \<open>
  C4 as stated fails on Render: a row with a service id and no container name has not both
  identifiers set, and \<open>stopInstance\<close> suspends the service and sets the status to \<open>STOPPED\<close>.
\<close>

theorem render_stopInstance_nameless_counterexample:
  "map containerName (instances nameless_world) = [None]
   \<and> fst (render_stopInstance calm_env ''inst-1'' nameless_world) = Inr ()
   \<and> map status (instances nameless_world) = [RUNNING]
   \<and> map status (instances (snd (render_stopInstance calm_env ''inst-1'' nameless_world))) = [STOPPED]"
  by (simp add: render_stopInstance_def nameless_world_def calm_env_def run_defs suspendService_def)

lemma try_catch_return_total: "\<exists>b. fst (try_catch m (\<lambda>e. return c) w) = Inr b"
  by (auto simp: try_catch_def return_def split: prod.splits sum.splits)

text \<open>
  C8. \<open>checkInstanceHealth\<close> always returns a boolean. It returns \<open>false\<close> when anything in
  its \<open>try\<close> block throws, when the instance is missing, and when the identifiers the provider
  needs are missing. When the instance is found with its identifiers, the client can be
  built, the provider answers and the update does not fail, it returns whether the provider
  reports the resource as running (\<open>started\<close> or \<open>running\<close> on Fly.io; not suspended and with a
  \<open>url\<close> other than \<open>undefined\<close> on Render, so that a \<open>url\<close> of \<open>null\<close> counts as running), and
  the row has \<open>lastHealthCheck\<close> set to the time of the answer and status \<open>RUNNING\<close> or \<open>ERROR\<close>
  accordingly.
\<close>

theorem checkInstanceHealth_never_throws:
  "(\<exists>b. fst (fly_checkInstanceHealth env iid w) = Inr b)
   \<and> (\<exists>b. fst (render_checkInstanceHealth env iid w) = Inr b)
   \<and> (\<forall>e w2. fly_checkInstanceHealth_try env iid w = (Inl e, w2)
        \<longrightarrow> fly_checkInstanceHealth env iid w = (Inr False, w2))
   \<and> (\<forall>e w2. render_checkInstanceHealth_try env iid w = (Inl e, w2)
        \<longrightarrow> render_checkInstanceHealth env iid w = (Inr False, w2))
   \<and> (\<forall>w1. instance_findUnique_id env iid w = (Inr None, w1)
        \<longrightarrow> fly_checkInstanceHealth env iid w = (Inr False, w1)
          \<and> render_checkInstanceHealth env iid w = (Inr False, w1))
   \<and> (\<forall>inst w1. instance_findUnique_id env iid w = (Inr (Some inst), w1)
          \<and> \<not> (truthy (containerId inst) \<and> truthy (containerName inst))
        \<longrightarrow> fly_checkInstanceHealth env iid w = (Inr False, w1))
   \<and> (\<forall>inst w1. instance_findUnique_id env iid w = (Inr (Some inst), w1)
          \<and> \<not> truthy (containerId inst)
        \<longrightarrow> render_checkInstanceHealth env iid w = (Inr False, w1))
   \<and> (\<forall>inst w1 cid cname machine.
          instance_findUnique_id env iid w = (Inr (Some inst), w1)
          \<and> containerId inst = Some cid \<and> cid \<noteq> [] \<and> containerName inst = Some cname \<and> cname \<noteq> []
          \<and> truthy (FLY_API_TOKEN env) \<and> truthy (FLY_ORG_SLUG env)
          \<and> machine_res env (length (trace w1)) (GetMachine cname cid) = Inr machine
          \<and> void_res env (Suc (length (trace w1))) (DbUpdate iid) = None
        \<longrightarrow> fst (fly_checkInstanceHealth env iid w)
              = Inr (machine_state machine = ''started'' \<or> machine_state machine = ''running'')
          \<and> instances (snd (fly_checkInstanceHealth env iid w))
              = map (\<lambda>r. if inst_id r = iid
                          then r\<lparr>lastHealthCheck := Some (now w1 + latency env (length (trace w1))),
                                 status := (if machine_state machine = ''started'' \<or> machine_state machine = ''running''
                                            then RUNNING else ERROR)\<rparr>
                          else r) (instances w))
   \<and> (\<forall>inst w1 cid service.
          instance_findUnique_id env iid w = (Inr (Some inst), w1)
          \<and> containerId inst = Some cid \<and> cid \<noteq> []
          \<and> truthy (RENDER_API_KEY env)
          \<and> service_res env (length (trace w1)) (GetService cid) = Inr service
          \<and> void_res env (Suc (length (trace w1))) (DbUpdate iid) = None
        \<longrightarrow> fst (render_checkInstanceHealth env iid w)
              = Inr (suspended service = ''not_suspended'' \<and> service_url service \<noteq> JsUndefined)
          \<and> instances (snd (render_checkInstanceHealth env iid w))
              = map (\<lambda>r. if inst_id r = iid
                          then r\<lparr>lastHealthCheck := Some (now w1 + latency env (length (trace w1))),
                                 status := (if suspended service = ''not_suspended'' \<and> service_url service \<noteq> JsUndefined
                                            then RUNNING else ERROR)\<rparr>
                          else r) (instances w))"
proof (intro conjI)
  show "\<exists>b. fst (fly_checkInstanceHealth env iid w) = Inr b"
    unfolding fly_checkInstanceHealth_def by (rule try_catch_return_total)
  show "\<exists>b. fst (render_checkInstanceHealth env iid w) = Inr b"
    unfolding render_checkInstanceHealth_def by (rule try_catch_return_total)
  show "\<forall>e w2. fly_checkInstanceHealth_try env iid w = (Inl e, w2)
        \<longrightarrow> fly_checkInstanceHealth env iid w = (Inr False, w2)"
    by (simp add: fly_checkInstanceHealth_def try_catch_def return_def)
  show "\<forall>e w2. render_checkInstanceHealth_try env iid w = (Inl e, w2)
        \<longrightarrow> render_checkInstanceHealth env iid w = (Inr False, w2)"
    by (simp add: render_checkInstanceHealth_def try_catch_def return_def)
  show "\<forall>w1. instance_findUnique_id env iid w = (Inr None, w1)
        \<longrightarrow> fly_checkInstanceHealth env iid w = (Inr False, w1)
          \<and> render_checkInstanceHealth env iid w = (Inr False, w1)"
    by (simp add: fly_checkInstanceHealth_def fly_checkInstanceHealth_try_def
          render_checkInstanceHealth_def render_checkInstanceHealth_try_def
          try_catch_def return_def bind_def)
  show "\<forall>inst w1. instance_findUnique_id env iid w = (Inr (Some inst), w1)
          \<and> \<not> (truthy (containerId inst) \<and> truthy (containerName inst))
        \<longrightarrow> fly_checkInstanceHealth env iid w = (Inr False, w1)"
    by (simp add: fly_checkInstanceHealth_def fly_checkInstanceHealth_try_def
          try_catch_def return_def bind_def)
  show "\<forall>inst w1. instance_findUnique_id env iid w = (Inr (Some inst), w1)
          \<and> \<not> truthy (containerId inst)
        \<longrightarrow> render_checkInstanceHealth env iid w = (Inr False, w1)"
    by (simp add: render_checkInstanceHealth_def render_checkInstanceHealth_try_def
          try_catch_def return_def bind_def)
next
  show "\<forall>inst w1 cid cname machine.
          instance_findUnique_id env iid w = (Inr (Some inst), w1)
          \<and> containerId inst = Some cid \<and> cid \<noteq> [] \<and> containerName inst = Some cname \<and> cname \<noteq> []
          \<and> truthy (FLY_API_TOKEN env) \<and> truthy (FLY_ORG_SLUG env)
          \<and> machine_res env (length (trace w1)) (GetMachine cname cid) = Inr machine
          \<and> void_res env (Suc (length (trace w1))) (DbUpdate iid) = None
        \<longrightarrow> fst (fly_checkInstanceHealth env iid w)
              = Inr (machine_state machine = ''started'' \<or> machine_state machine = ''running'')
          \<and> instances (snd (fly_checkInstanceHealth env iid w))
              = map (\<lambda>r. if inst_id r = iid
                          then r\<lparr>lastHealthCheck := Some (now w1 + latency env (length (trace w1))),
                                 status := (if machine_state machine = ''started'' \<or> machine_state machine = ''running''
                                            then RUNNING else ERROR)\<rparr>
                          else r) (instances w)"
  proof (intro allI impI, elim conjE)
    fix inst w1 cid cname machine
    assume found: "instance_findUnique_id env iid w = (Inr (Some inst), w1)"
      and ids: "containerId inst = Some cid" "cid \<noteq> []" "containerName inst = Some cname" "cname \<noteq> []"
      and creds: "truthy (FLY_API_TOKEN env)" "truthy (FLY_ORG_SLUG env)"
      and m: "machine_res env (length (trace w1)) (GetMachine cname cid) = Inr machine"
      and u: "void_res env (Suc (length (trace w1))) (DbUpdate iid) = None"
    from found have same: "instances w1 = instances w" and ex: "\<exists>r\<in>set (instances w). inst_id r = iid"
      by (auto simp: instance_findUnique_id_def prog_defs find_Some_iff split: option.splits)
    from creds obtain fly where fly: "newFlyClient env = return fly"
      by (auto simp: newFlyClient_def truthy_def split: option.splits)
    show "fst (fly_checkInstanceHealth env iid w)
              = Inr (machine_state machine = ''started'' \<or> machine_state machine = ''running'')
          \<and> instances (snd (fly_checkInstanceHealth env iid w))
              = map (\<lambda>r. if inst_id r = iid
                          then r\<lparr>lastHealthCheck := Some (now w1 + latency env (length (trace w1))),
                                 status := (if machine_state machine = ''started'' \<or> machine_state machine = ''running''
                                            then RUNNING else ERROR)\<rparr>
                          else r) (instances w)"
      using found ids m u same ex
      by (simp add: fly_checkInstanceHealth_def fly_checkInstanceHealth_try_def fly getMachine_def
            instance_update_def prog_defs truthy_def Let_def)
  qed
next
  show "\<forall>inst w1 cid service.
          instance_findUnique_id env iid w = (Inr (Some inst), w1)
          \<and> containerId inst = Some cid \<and> cid \<noteq> []
          \<and> truthy (RENDER_API_KEY env)
          \<and> service_res env (length (trace w1)) (GetService cid) = Inr service
          \<and> void_res env (Suc (length (trace w1))) (DbUpdate iid) = None
        \<longrightarrow> fst (render_checkInstanceHealth env iid w)
              = Inr (suspended service = ''not_suspended'' \<and> service_url service \<noteq> JsUndefined)
          \<and> instances (snd (render_checkInstanceHealth env iid w))
              = map (\<lambda>r. if inst_id r = iid
                          then r\<lparr>lastHealthCheck := Some (now w1 + latency env (length (trace w1))),
                                 status := (if suspended service = ''not_suspended'' \<and> service_url service \<noteq> JsUndefined
                                            then RUNNING else ERROR)\<rparr>
                          else r) (instances w)"
  proof (intro allI impI, elim conjE)
    fix inst w1 cid service
    assume found: "instance_findUnique_id env iid w = (Inr (Some inst), w1)"
      and ids: "containerId inst = Some cid" "cid \<noteq> []"
      and creds: "truthy (RENDER_API_KEY env)"
      and m: "service_res env (length (trace w1)) (GetService cid) = Inr service"
      and u: "void_res env (Suc (length (trace w1))) (DbUpdate iid) = None"
    from found have same: "instances w1 = instances w" and ex: "\<exists>r\<in>set (instances w). inst_id r = iid"
      by (auto simp: instance_findUnique_id_def prog_defs find_Some_iff split: option.splits)
    from creds obtain render where render: "newRenderClient env = return render"
      by (auto simp: newRenderClient_def truthy_def split: option.splits)
    show "fst (render_checkInstanceHealth env iid w)
              = Inr (suspended service = ''not_suspended'' \<and> service_url service \<noteq> JsUndefined)
          \<and> instances (snd (render_checkInstanceHealth env iid w))
              = map (\<lambda>r. if inst_id r = iid
                          then r\<lparr>lastHealthCheck := Some (now w1 + latency env (length (trace w1))),
                                 status := (if suspended service = ''not_suspended'' \<and> service_url service \<noteq> JsUndefined
                                            then RUNNING else ERROR)\<rparr>
                          else r) (instances w)"
      using found ids m u same ex
      by (simp add: render_checkInstanceHealth_def render_checkInstanceHealth_try_def render getService_def
            instance_update_def prog_defs truthy_def Let_def)
  qed
qed

theorem checkInstanceHealth_never_throws_witness:
  "fly_checkInstanceHealth calm_env ''inst-1'' empty_world = (Inr False, empty_world\<lparr>trace := [DbFindUnique ''inst-1'']\<rparr>)
   \<and> render_checkInstanceHealth calm_env ''inst-1'' placeholder_world
       = (Inr False, placeholder_world\<lparr>trace := [DbFindUnique ''inst-1'']\<rparr>)
   \<and> fst (fly_checkInstanceHealth create_down_env ''inst-1'' running_world) = Inr False
   \<and> fst (fly_checkInstanceHealth calm_env ''inst-1'' running_world) = Inr True
   \<and> map status (instances (snd (fly_checkInstanceHealth calm_env ''inst-1'' running_world))) = [RUNNING]
   \<and> map lastHealthCheck (instances (snd (fly_checkInstanceHealth calm_env ''inst-1'' running_world))) = [Some 7]
   \<and> fst (render_checkInstanceHealth calm_env ''inst-1'' running_world) = Inr True
   \<and> fst (render_checkInstanceHealth null_url_env ''inst-1'' running_world) = Inr True
   \<and> map status (instances (snd (render_checkInstanceHealth null_url_env ''inst-1'' running_world))) = [RUNNING]"
proof -
  note T = checkInstanceHealth_never_throws
  have missing: "instance_findUnique_id calm_env ''inst-1'' empty_world
                  = (Inr None, empty_world\<lparr>trace := [DbFindUnique ''inst-1'']\<rparr>)"
    by (simp add: empty_world_def calm_env_def run_defs)
  have placeholder: "instance_findUnique_id calm_env ''inst-1'' placeholder_world
                = (Inr (Some (hd (instances placeholder_world))),
                   placeholder_world\<lparr>trace := [DbFindUnique ''inst-1'']\<rparr>)
                \<and> \<not> truthy (containerId (hd (instances placeholder_world)))"
    by (simp add: placeholder_world_def calm_env_def run_defs)
  have thrown: "fly_checkInstanceHealth_try create_down_env ''inst-1'' running_world
                  = (Inl (Error ''Fly.io API error 422: no capacity''),
                     snd (fly_checkInstanceHealth_try create_down_env ''inst-1'' running_world))"
    by (simp add: fly_checkInstanceHealth_try_def create_down_env_def running_world_def calm_env_def
          run_defs getMachine_def)
  have found: "instance_findUnique_id calm_env ''inst-1'' running_world
                = (Inr (Some (hd (instances running_world))), running_world\<lparr>trace := [DbFindUnique ''inst-1'']\<rparr>)
               \<and> containerId (hd (instances running_world)) = Some ''m1'' \<and> ''m1'' \<noteq> []
               \<and> containerName (hd (instances running_world)) = Some ''openclaw-user-1'' \<and> ''openclaw-user-1'' \<noteq> []
               \<and> truthy (FLY_API_TOKEN calm_env) \<and> truthy (FLY_ORG_SLUG calm_env)
               \<and> machine_res calm_env (length (trace (running_world\<lparr>trace := [DbFindUnique ''inst-1'']\<rparr>)))
                    (GetMachine ''openclaw-user-1'' ''m1'') = Inr \<lparr>machine_id = ''m1'', machine_state = ''started''\<rparr>
               \<and> void_res calm_env (Suc (length (trace (running_world\<lparr>trace := [DbFindUnique ''inst-1'']\<rparr>))))
                    (DbUpdate ''inst-1'') = None"
    by (simp add: running_world_def calm_env_def run_defs)
  have found_r: "instance_findUnique_id calm_env ''inst-1'' running_world
                = (Inr (Some (hd (instances running_world))), running_world\<lparr>trace := [DbFindUnique ''inst-1'']\<rparr>)
               \<and> containerId (hd (instances running_world)) = Some ''m1'' \<and> ''m1'' \<noteq> []
               \<and> truthy (RENDER_API_KEY calm_env)
               \<and> service_res calm_env (length (trace (running_world\<lparr>trace := [DbFindUnique ''inst-1'']\<rparr>)))
                    (GetService ''m1'') = Inr \<lparr>service_id = ''srv-1'', service_name = ''openclaw-user-1'',
                                 suspended = ''not_suspended'',
                                 service_url = JsString ''https://openclaw-user-1.onrender.com''\<rparr>
               \<and> void_res calm_env (Suc (length (trace (running_world\<lparr>trace := [DbFindUnique ''inst-1'']\<rparr>))))
                    (DbUpdate ''inst-1'') = None"
    by (simp add: running_world_def calm_env_def run_defs)
  have found_n: "instance_findUnique_id null_url_env ''inst-1'' running_world
                = (Inr (Some (hd (instances running_world))), running_world\<lparr>trace := [DbFindUnique ''inst-1'']\<rparr>)
               \<and> containerId (hd (instances running_world)) = Some ''m1'' \<and> ''m1'' \<noteq> []
               \<and> truthy (RENDER_API_KEY null_url_env)
               \<and> service_res null_url_env (length (trace (running_world\<lparr>trace := [DbFindUnique ''inst-1'']\<rparr>)))
                    (GetService ''m1'') = Inr \<lparr>service_id = ''srv-1'', service_name = ''openclaw-user-1'',
                                 suspended = ''not_suspended'', service_url = JsNull\<rparr>
               \<and> void_res null_url_env (Suc (length (trace (running_world\<lparr>trace := [DbFindUnique ''inst-1'']\<rparr>))))
                    (DbUpdate ''inst-1'') = None"
    by (simp add: running_world_def null_url_env_def calm_env_def run_defs)
  note T5 = T[where env=null_url_env and iid="''inst-1''" and w=running_world]
  note T1 = T[where env=calm_env and iid="''inst-1''" and w=empty_world]
  note T2 = T[where env=calm_env and iid="''inst-1''" and w=placeholder_world]
  note T3 = T[where env=create_down_env and iid="''inst-1''" and w=running_world]
  note T4 = T[where env=calm_env and iid="''inst-1''" and w=running_world]
  have a: "fly_checkInstanceHealth calm_env ''inst-1'' empty_world = (Inr False, empty_world\<lparr>trace := [DbFindUnique ''inst-1'']\<rparr>)"
    using T1[THEN conjunct2, THEN conjunct2, THEN conjunct2, THEN conjunct2, THEN conjunct1, rule_format, OF missing]
    by (rule conjunct1)
  have b: "render_checkInstanceHealth calm_env ''inst-1'' placeholder_world
       = (Inr False, placeholder_world\<lparr>trace := [DbFindUnique ''inst-1'']\<rparr>)"
    by (rule T2[THEN conjunct2, THEN conjunct2, THEN conjunct2, THEN conjunct2, THEN conjunct2, THEN conjunct2,
          THEN conjunct1, rule_format, OF placeholder])
  have c: "fst (fly_checkInstanceHealth create_down_env ''inst-1'' running_world) = Inr False"
    using T3[THEN conjunct2, THEN conjunct2, THEN conjunct1, rule_format, OF thrown] by simp
  have d: "fst (fly_checkInstanceHealth calm_env ''inst-1'' running_world) = Inr True
     \<and> map status (instances (snd (fly_checkInstanceHealth calm_env ''inst-1'' running_world))) = [RUNNING]
     \<and> map lastHealthCheck (instances (snd (fly_checkInstanceHealth calm_env ''inst-1'' running_world))) = [Some 7]"
    using T4[THEN conjunct2, THEN conjunct2, THEN conjunct2, THEN conjunct2, THEN conjunct2, THEN conjunct2,
          THEN conjunct2, THEN conjunct1, rule_format, OF found]
    by (simp add: running_world_def calm_env_def)
  have e: "fst (render_checkInstanceHealth calm_env ''inst-1'' running_world) = Inr True"
    using T4[THEN conjunct2, THEN conjunct2, THEN conjunct2, THEN conjunct2, THEN conjunct2, THEN conjunct2,
          THEN conjunct2, THEN conjunct2, rule_format, OF found_r]
    by simp
  have f: "fst (render_checkInstanceHealth null_url_env ''inst-1'' running_world) = Inr True
     \<and> map status (instances (snd (render_checkInstanceHealth null_url_env ''inst-1'' running_world))) = [RUNNING]"
    using T5[THEN conjunct2, THEN conjunct2, THEN conjunct2, THEN conjunct2, THEN conjunct2, THEN conjunct2,
          THEN conjunct2, THEN conjunct2, rule_format, OF found_n]
    by (simp add: running_world_def)
  from a b c d e f show ?thesis by (intro conjI) simp_all
qed

section \<open>Deployment\<close>

subsection \<open>The rows of a user\<close>

lemma same_keys_refl [simp]: "same_keys w w"
  by (simp add: same_keys_def)

lemma same_keys_trans: "same_keys w w1 \<Longrightarrow> same_keys w1 w2 \<Longrightarrow> same_keys w w2"
  by (simp add: same_keys_def)

lemma keeps_keysD: "keeps_keys m \<Longrightarrow> m w = (r, w') \<Longrightarrow> same_keys w w'"
  by (auto simp: keeps_keys_def dest: spec[of _ w])

lemma keeps_keys_bind:
  assumes "keeps_keys m" "\<And>x. keeps_keys (f x)"
  shows "keeps_keys (bind m f)"
  unfolding keeps_keys_def
proof
  fix w
  show "same_keys w (snd (bind m f w))"
  proof (cases "m w")
    case (Pair r w1)
    with assms(1) have k1: "same_keys w w1" by (rule keeps_keysD)
    show ?thesis
    proof (cases r)
      case (Inl e)
      with Pair k1 show ?thesis by (simp add: bind_def)
    next
      case (Inr x)
      from assms(2)[of x] have "same_keys w1 (snd (f x w1))" by (simp add: keeps_keys_def)
      with k1 Pair Inr show ?thesis by (auto simp: bind_def intro: same_keys_trans)
    qed
  qed
qed

lemma keeps_keys_try_catch:
  assumes "keeps_keys m" "\<And>e. keeps_keys (h e)"
  shows "keeps_keys (try_catch m h)"
  unfolding keeps_keys_def
proof
  fix w
  show "same_keys w (snd (try_catch m h w))"
  proof (cases "m w")
    case (Pair r w1)
    with assms(1) have k1: "same_keys w w1" by (rule keeps_keysD)
    show ?thesis
    proof (cases r)
      case (Inr x)
      with Pair k1 show ?thesis by (simp add: try_catch_def)
    next
      case (Inl e)
      from assms(2)[of e] have "same_keys w1 (snd (h e w1))" by (simp add: keeps_keys_def)
      with k1 Pair Inl show ?thesis by (auto simp: try_catch_def intro: same_keys_trans)
    qed
  qed
qed

lemma keeps_keys_basic:
  "keeps_keys (return x)" "keeps_keys (throw e)" "keeps_keys (sleep ms)" "keeps_keys dateNow"
  "keeps_keys (cryptoRandomUUID env)" "keeps_keys (sync v)" "keeps_keys (extern env c oracle)"
  by (simp_all add: keeps_keys_def same_keys_def prog_defs)

lemma keeps_keys_case_prod:
  "(\<And>a b. keeps_keys (f a b)) \<Longrightarrow> keeps_keys (case x of (a, b) \<Rightarrow> f a b)"
  by (cases x) simp

lemma keeps_keys_update:
  assumes "\<And>r. inst_id (data r) = inst_id r \<and> userId (data r) = userId r"
  shows "keeps_keys (instance_update env iid data)"
  using assms by (auto simp: keeps_keys_def same_keys_def instance_update_def prog_defs split: option.splits)

lemma keeps_keys_log: "keeps_keys (logDeployment env iid a s m e)"
  by (simp add: keeps_keys_def same_keys_def logDeployment_def prog_defs split: option.splits)

lemma waitForMachineState_loop_instances:
  "instances (snd (waitForMachineState_loop env fly a m target T start w)) = instances w"
proof (induction env fly a m target T start w rule: waitForMachineState_loop.induct)
  case (1 env fly a m target T start w)
  show ?case
  proof (cases "getMachine env fly a m w")
    case (Pair r w1)
    then have w1: "instances w1 = instances w"
      by (auto simp: getMachine_def extern_def)
    show ?thesis
    proof (cases r)
      case (Inl e)
      with Pair w1 show ?thesis
        by (simp add: waitForMachineState_loop.simps[of env fly a m target T start w])
    next
      case (Inr machine)
      with Pair w1 1[OF _ Pair[symmetric] Inr] show ?thesis
        by (simp add: waitForMachineState_loop.simps[of env fly a m target T start w] sleep_def)
    qed
  qed
qed

lemma pollServiceUrl_instances:
  "instances (snd (pollServiceUrl env render sid attempts w)) = instances w"
proof (induction env render sid attempts w rule: pollServiceUrl.induct)
  case (1 env render sid attempts w)
  show ?case
  proof (cases "getService env render sid w")
    case (Pair r w1)
    then have w1: "instances w1 = instances w"
      by (auto simp: getService_def extern_def)
    show ?thesis
    proof (cases r)
      case (Inl e)
      with Pair w1 show ?thesis
        by (simp add: pollServiceUrl.simps[of env render sid attempts w])
    next
      case (Inr service)
      with Pair w1 1[OF _ Pair[symmetric] Inr] show ?thesis
        by (simp add: pollServiceUrl.simps[of env render sid attempts w] sleep_def)
    qed
  qed
qed

lemma keeps_keys_clients:
  "keeps_keys (verifyAccess env fly)" "keeps_keys (createApp env fly a)"
  "keeps_keys (setSecrets env fly a secrets)" "keeps_keys (createMachine env fly a img menv cmd)"
  "keeps_keys (allocateIPAddress env fly a t)" "keeps_keys (waitForMachineState env fly a m target T)"
  "keeps_keys (createService env render a img menv scmd)" "keeps_keys (pollServiceUrl env render sid n)"
  "keeps_keys (healthProbe env url tok)"
  by (simp_all add: keeps_keys_def same_keys_def verifyAccess_def createApp_def setSecrets_def
        createMachine_def allocateIPAddress_def waitForMachineState_def createService_def
        healthProbe_def prog_defs waitForMachineState_loop_instances pollServiceUrl_instances
        split: sum.splits)

lemmas keeps_keys_intros = keeps_keys_bind keeps_keys_try_catch keeps_keys_basic keeps_keys_case_prod
  keeps_keys_update keeps_keys_log keeps_keys_clients

lemma keeps_keys_fly_provision: "keeps_keys (fly_provision env fly a cfg inst)"
  unfolding fly_provision_def Let_def
  by (intro keeps_keys_intros) simp_all

lemma keeps_keys_fly_verify: "keeps_keys (fly_verify env a inst p tok machine url)"
  unfolding fly_verify_def
  by (intro keeps_keys_intros) simp_all

lemma keeps_keys_fly_steps: "keeps_keys (fly_deploy_steps env fly a cfg inst p)"
  unfolding fly_deploy_steps_def
  by (intro keeps_keys_intros keeps_keys_fly_provision keeps_keys_fly_verify)

lemma keeps_keys_render_provision: "keeps_keys (render_provision env render a cfg inst)"
  unfolding render_provision_def Let_def
  by (intro keeps_keys_intros) simp_all

lemma keeps_keys_render_verify: "keeps_keys (render_verify env a inst p tok service url surl)"
  unfolding render_verify_def
  by (intro keeps_keys_intros) simp_all

lemma keeps_keys_render_steps: "keeps_keys (render_deploy_steps env render a cfg inst p)"
  unfolding render_deploy_steps_def
  by (intro keeps_keys_intros keeps_keys_render_provision keeps_keys_render_verify)

lemma sole_row_same_keys:
  assumes "same_keys w w'" "sole_row u i w"
  shows "sole_row u i w'"
proof -
  from assms(1) have "set (map (\<lambda>r. (inst_id r, userId r)) (instances w')) = set (map (\<lambda>r. (inst_id r, userId r)) (instances w))"
    by (simp add: same_keys_def)
  then have eq: "(\<lambda>r. (inst_id r, userId r)) ` set (instances w') = (\<lambda>r. (inst_id r, userId r)) ` set (instances w)"
    by simp
  show ?thesis
    unfolding sole_row_def
  proof (intro conjI ballI)
    from assms(2) obtain r where "r \<in> set (instances w)" "inst_id r = i"
      by (auto simp: sole_row_def)
    then have "(i, userId r) \<in> (\<lambda>r. (inst_id r, userId r)) ` set (instances w)" by force
    with eq have "(i, userId r) \<in> (\<lambda>r. (inst_id r, userId r)) ` set (instances w')" by simp
    then show "\<exists>r\<in>set (instances w'). inst_id r = i" by auto
  next
    fix r' assume "r' \<in> set (instances w')"
    then have "(inst_id r', userId r') \<in> (\<lambda>r. (inst_id r, userId r)) ` set (instances w')" by force
    with eq obtain r where "r \<in> set (instances w)" "inst_id r = inst_id r'" "userId r = userId r'"
      by auto
    with assms(2) show "(userId r' = u) = (inst_id r' = i)"
      by (auto simp: sole_row_def)
  qed
qed

lemma instance_create_post:
  assumes "instance_create env u cname p w = (Inr inst, w')"
  shows "userId inst = u \<and> sole_row u (inst_id inst) w'"
  using assms
  by (auto simp: instance_create_def prog_defs sole_row_def Let_def split: sum.splits option.splits if_splits)

lemma logDeployment_same_keys: "logDeployment env iid a s m e w = (r, w') \<Longrightarrow> same_keys w w'"
  using keeps_keysD[OF keeps_keys_log] by blast

lemma fly_prepare_post:
  assumes "fly_deploy_prepare env u w = (Inr (fly, a, inst, p), w1)"
  shows "userId inst = u \<and> sole_row u (inst_id inst) w1"
proof -
  from assms obtain wc wl where c: "instance_create env u a p wc = (Inr inst, wl)"
    and l: "logDeployment env (inst_id inst) ''DEPLOY'' ''IN_PROGRESS'' ''Creating Fly.io app...'' None wl = (Inr (), w1)"
    unfolding fly_deploy_prepare_def Let_def
    by (elim bind_InrE) (auto simp: return_def)
  from instance_create_post[OF c] logDeployment_same_keys[OF l] show ?thesis
    by (auto intro: sole_row_same_keys)
qed

lemma render_prepare_post:
  assumes "render_deploy_prepare env u w = (Inr (render, a, inst, p), w1)"
  shows "userId inst = u \<and> sole_row u (inst_id inst) w1"
proof -
  from assms obtain wc wl where c: "instance_create env u a p wc = (Inr inst, wl)"
    and l: "logDeployment env (inst_id inst) ''DEPLOY'' ''IN_PROGRESS'' ''Creating Render service...'' None wl = (Inr (), w1)"
    unfolding render_deploy_prepare_def Let_def
    by (elim bind_InrE) (auto simp: return_def)
  from instance_create_post[OF c] logDeployment_same_keys[OF l] show ?thesis
    by (auto intro: sole_row_same_keys)
qed

lemma sole_row_final_status:
  assumes sole: "sole_row u i w2" and keys: "\<And>r. inst_id (data r) = inst_id r \<and> userId (data r) = userId r"
    and upd: "instances w' = map (\<lambda>r. if inst_id r = i then data r else r) (instances w2)"
    and st: "\<And>r. status (data r) = s"
  shows "(\<exists>r\<in>set (instances w'). userId r = u \<and> inst_id r = i)
         \<and> (\<forall>r\<in>set (instances w'). userId r = u \<longrightarrow> status r = s)"
proof (intro conjI ballI impI)
  from sole obtain r where r: "r \<in> set (instances w2)" "inst_id r = i" "userId r = u"
    by (auto simp: sole_row_def)
  then have "data r \<in> set (instances w')" by (force simp: upd)
  with r keys show "\<exists>r\<in>set (instances w'). userId r = u \<and> inst_id r = i" by force
next
  fix r' assume "r' \<in> set (instances w')" "userId r' = u"
  then obtain r where r: "r \<in> set (instances w2)" "r' = (if inst_id r = i then data r else r)"
    by (auto simp: upd)
  with sole \<open>userId r' = u\<close> keys have "inst_id r = i"
    by (auto simp: sole_row_def split: if_splits)
  with r st show "status r' = s" by simp
qed

subsection \<open>A run that returns\<close>

lemma fly_verify_post:
  assumes run: "fly_verify env a inst p tok machine url w2 = (Inr res, w')"
  defines "healthy \<equiv> fetch_res env (Suc (length (trace w2))) (Fetch (url @ ''/health'') tok) = Inr True"
  shows "trace w' = trace w2 @ [DbLogCreate (inst_id inst), Fetch (url @ ''/health'') tok,
                                DbUpdate (inst_id inst), DbLogCreate (inst_id inst)]"
    and "res = \<lparr>fr_instanceId = inst_id inst, fr_machineId = machine_id machine,
              fr_appName = a, fr_port = p, fr_accessUrl = url,
              fr_status = (if healthy then ''RUNNING'' else ''ERROR'')\<rparr>"
    and "instances w' = map (\<lambda>r. if inst_id r = inst_id inst
                                  then r\<lparr>status := (if healthy then RUNNING else ERROR),
                                         accessUrl := Some url,
                                         containerId := Some (machine_id machine)\<rparr>
                                  else r) (instances w2)"
proof -
  from run obtain wa wb hk wc wd we where
    l1: "logDeployment env (inst_id inst) ''DEPLOY'' ''IN_PROGRESS'' ''Verifying OpenClaw Gateway...'' None w2 = (Inr (), wa)"
    and s: "sleep 15000 wa = (Inr (), wb)"
    and h: "healthProbe env url tok wb = (Inr hk, wc)"
    and u: "instance_update env (inst_id inst)
             (\<lambda>r. r\<lparr>status := (if hk then RUNNING else ERROR),
                     accessUrl := Some url,
                     containerId := Some (machine_id machine)\<rparr>) wc = (Inr (), wd)"
    and l2: "logDeployment env (inst_id inst) ''DEPLOY'' (if hk then ''SUCCESS'' else ''PARTIAL'')
             (if hk then ''Deployment completed''
              else ''Deployment completed but health check failed'') None wd = (Inr (), w')"
    and r: "res = \<lparr>fr_instanceId = inst_id inst, fr_machineId = machine_id machine,
              fr_appName = a, fr_port = p, fr_accessUrl = url,
              fr_status = (if hk then ''RUNNING'' else ''ERROR'')\<rparr>"
    unfolding fly_verify_def
    by (elim bind_InrE) (auto simp: return_def)
  note A = logDeployment_Inr[OF l1] sleep_run[OF s] instance_update_Inr[OF u] logDeployment_Inr[OF l2]
  from h have hk: "hk = (fetch_res env (length (trace wb)) (Fetch (url @ ''/health'') tok) = Inr True)"
    and wc: "instances wc = instances wb" "trace wc = trace wb @ [Fetch (url @ ''/health'') tok]"
    by (auto simp: healthProbe_run)
  from A have "length (trace wb) = Suc (length (trace w2))" by simp
  with hk have hk': "hk = healthy" by (simp add: healthy_def)
  from A wc show "trace w' = trace w2 @ [DbLogCreate (inst_id inst), Fetch (url @ ''/health'') tok,
                                DbUpdate (inst_id inst), DbLogCreate (inst_id inst)]"
    by simp
  from r hk' show "res = \<lparr>fr_instanceId = inst_id inst, fr_machineId = machine_id machine,
              fr_appName = a, fr_port = p, fr_accessUrl = url,
              fr_status = (if healthy then ''RUNNING'' else ''ERROR'')\<rparr>" by simp
  from A wc hk' show "instances w' = map (\<lambda>r. if inst_id r = inst_id inst
                                  then r\<lparr>status := (if healthy then RUNNING else ERROR),
                                         accessUrl := Some url,
                                         containerId := Some (machine_id machine)\<rparr>
                                  else r) (instances w2)"
    by simp
qed

lemma render_verify_post:
  assumes run: "render_verify env a inst p tok service url surl w2 = (Inr res, w')"
  defines "healthy \<equiv> fetch_res env (Suc (length (trace w2))) (Fetch (url @ ''/health'') tok) = Inr True"
  shows "trace w' = trace w2 @ [DbLogCreate (inst_id inst), Fetch (url @ ''/health'') tok,
                                DbUpdate (inst_id inst), DbLogCreate (inst_id inst)]"
    and "res = \<lparr>rr_instanceId = inst_id inst, rr_serviceId = service_id service,
              rr_serviceName = a, rr_port = p, rr_accessUrl = url, rr_shellUrl = surl,
              rr_status = (if healthy then ''RUNNING'' else ''ERROR'')\<rparr>"
    and "instances w' = map (\<lambda>r. if inst_id r = inst_id inst
                                  then r\<lparr>status := (if healthy then RUNNING else ERROR),
                                         accessUrl := Some url,
                                         serviceUrl := Some surl,
                                         containerId := Some (service_id service)\<rparr>
                                  else r) (instances w2)"
proof -
  from run obtain wa wb hk wc wd where
    l1: "logDeployment env (inst_id inst) ''DEPLOY'' ''IN_PROGRESS'' ''Verifying OpenClaw Gateway...'' None w2 = (Inr (), wa)"
    and s: "sleep 20000 wa = (Inr (), wb)"
    and h: "healthProbe env url tok wb = (Inr hk, wc)"
    and u: "instance_update env (inst_id inst)
             (\<lambda>r. r\<lparr>status := (if hk then RUNNING else ERROR),
                     accessUrl := Some url,
                     serviceUrl := Some surl,
                     containerId := Some (service_id service)\<rparr>) wc = (Inr (), wd)"
    and l2: "logDeployment env (inst_id inst) ''DEPLOY'' (if hk then ''SUCCESS'' else ''PARTIAL'')
             (if hk then ''Deployment completed''
              else ''Deployment completed but health check failed'') None wd = (Inr (), w')"
    and r: "res = \<lparr>rr_instanceId = inst_id inst, rr_serviceId = service_id service,
              rr_serviceName = a, rr_port = p, rr_accessUrl = url, rr_shellUrl = surl,
              rr_status = (if hk then ''RUNNING'' else ''ERROR'')\<rparr>"
    unfolding render_verify_def
    by (elim bind_InrE) (auto simp: return_def)
  note A = logDeployment_Inr[OF l1] sleep_run[OF s] instance_update_Inr[OF u] logDeployment_Inr[OF l2]
  from h have hk: "hk = (fetch_res env (length (trace wb)) (Fetch (url @ ''/health'') tok) = Inr True)"
    and wc: "instances wc = instances wb" "trace wc = trace wb @ [Fetch (url @ ''/health'') tok]"
    by (auto simp: healthProbe_run)
  from A have "length (trace wb) = Suc (length (trace w2))" by simp
  with hk have hk': "hk = healthy" by (simp add: healthy_def)
  from A wc show "trace w' = trace w2 @ [DbLogCreate (inst_id inst), Fetch (url @ ''/health'') tok,
                                DbUpdate (inst_id inst), DbLogCreate (inst_id inst)]"
    by simp
  from r hk' show "res = \<lparr>rr_instanceId = inst_id inst, rr_serviceId = service_id service,
              rr_serviceName = a, rr_port = p, rr_accessUrl = url, rr_shellUrl = surl,
              rr_status = (if healthy then ''RUNNING'' else ''ERROR'')\<rparr>" by simp
  from A wc hk' show "instances w' = map (\<lambda>r. if inst_id r = inst_id inst
                                  then r\<lparr>status := (if healthy then RUNNING else ERROR),
                                         accessUrl := Some url,
                                         serviceUrl := Some surl,
                                         containerId := Some (service_id service)\<rparr>
                                  else r) (instances w2)"
    by simp
qed

lemma deploy_failed_not_Inr: "deploy_failed env inst e w \<noteq> (Inr x, w')"
  by (auto simp: deploy_failed_def instance_update_def logDeployment_def prog_defs split: option.splits)

lemma try_catch_failed_Inr:
  assumes "try_catch m (deploy_failed env inst) w = (Inr res, w')"
  shows "m w = (Inr res, w')"
proof (cases "m w")
  case (Pair r w1)
  show ?thesis
  proof (cases r)
    case (Inl e)
    with Pair assms show ?thesis
      by (simp add: try_catch_def deploy_failed_not_Inr)
  next
    case (Inr x)
    with Pair assms show ?thesis by (simp add: try_catch_def)
  qed
qed

lemma fly_final:
  assumes run: "fly_deployInstance env u cfg w = (Inr res, w')"
  shows "3 \<le> length (trace w')
       \<and> (\<exists>tok. trace w' ! (length (trace w') - 3) = Fetch (fr_accessUrl res @ ''/health'') tok)
       \<and> fr_status res = (if fetch_res env (length (trace w') - 3) (trace w' ! (length (trace w') - 3)) = Inr True
                         then ''RUNNING'' else ''ERROR'')
       \<and> (\<exists>r\<in>set (instances w'). userId r = u \<and> inst_id r = fr_instanceId res)
       \<and> (\<forall>r\<in>set (instances w'). userId r = u \<longrightarrow>
             status r = (if fetch_res env (length (trace w') - 3) (trace w' ! (length (trace w') - 3)) = Inr True
                         then RUNNING else ERROR))"
proof -
  from run obtain fly a inst p w1 where
    prep: "fly_deploy_prepare env u w = (Inr (fly, a, inst, p), w1)"
    and tc: "try_catch (fly_deploy_steps env fly a cfg inst p) (deploy_failed env inst) w1 = (Inr res, w')"
    unfolding fly_deployInstance_def by (elim bind_InrE) auto
  from try_catch_failed_Inr[OF tc] obtain tok machine url w2 where
    prov: "fly_provision env fly a cfg inst w1 = (Inr (tok, machine, url), w2)"
    and ver: "fly_verify env a inst p tok machine url w2 = (Inr res, w')"
    unfolding fly_deploy_steps_def by (elim bind_InrE) auto
  from fly_prepare_post[OF prep] keeps_keysD[OF keeps_keys_fly_provision prov]
  have sole: "sole_row u (inst_id inst) w2"
    by (auto intro: sole_row_same_keys)
  note post = fly_verify_post[OF ver]
  let ?n = "length (trace w') - 3"
  from post(1) have len: "3 \<le> length (trace w')" "?n = Suc (length (trace w2))"
    by simp_all
  from post(1) len have probe: "trace w' ! ?n = Fetch (url @ ''/health'') tok"
    by (simp add: nth_append)
  from post(2) have res: "fr_accessUrl res = url" "fr_instanceId res = inst_id inst" by simp_all
  from sole_row_final_status[OF sole _ post(3)] res
  have rows: "(\<exists>r\<in>set (instances w'). userId r = u \<and> inst_id r = fr_instanceId res)
         \<and> (\<forall>r\<in>set (instances w'). userId r = u \<longrightarrow> status r =
               (if fetch_res env (Suc (length (trace w2))) (Fetch (url @ ''/health'') tok) = Inr True then RUNNING else ERROR))"
    by simp
  from len probe post(2) res rows show ?thesis
    by (simp only: ) auto
qed

lemma render_final:
  assumes run: "render_deployInstance env u cfg w = (Inr res, w')"
  shows "3 \<le> length (trace w')
       \<and> (\<exists>tok. trace w' ! (length (trace w') - 3) = Fetch (rr_accessUrl res @ ''/health'') tok)
       \<and> rr_status res = (if fetch_res env (length (trace w') - 3) (trace w' ! (length (trace w') - 3)) = Inr True
                         then ''RUNNING'' else ''ERROR'')
       \<and> (\<exists>r\<in>set (instances w'). userId r = u \<and> inst_id r = rr_instanceId res)
       \<and> (\<forall>r\<in>set (instances w'). userId r = u \<longrightarrow>
             status r = (if fetch_res env (length (trace w') - 3) (trace w' ! (length (trace w') - 3)) = Inr True
                         then RUNNING else ERROR))"
proof -
  from run obtain render a inst p w1 where
    prep: "render_deploy_prepare env u w = (Inr (render, a, inst, p), w1)"
    and tc: "try_catch (render_deploy_steps env render a cfg inst p) (deploy_failed env inst) w1 = (Inr res, w')"
    unfolding render_deployInstance_def by (elim bind_InrE) auto
  from try_catch_failed_Inr[OF tc] obtain tok service url surl w2 where
    prov: "render_provision env render a cfg inst w1 = (Inr (tok, service, url, surl), w2)"
    and ver: "render_verify env a inst p tok service url surl w2 = (Inr res, w')"
    unfolding render_deploy_steps_def by (elim bind_InrE) auto
  from render_prepare_post[OF prep] keeps_keysD[OF keeps_keys_render_provision prov]
  have sole: "sole_row u (inst_id inst) w2"
    by (auto intro: sole_row_same_keys)
  note post = render_verify_post[OF ver]
  let ?n = "length (trace w') - 3"
  from post(1) have len: "3 \<le> length (trace w')" "?n = Suc (length (trace w2))"
    by simp_all
  from post(1) len have probe: "trace w' ! ?n = Fetch (url @ ''/health'') tok"
    by (simp add: nth_append)
  from post(2) have res: "rr_accessUrl res = url" "rr_instanceId res = inst_id inst" by simp_all
  from sole_row_final_status[OF sole _ post(3)] res
  have rows: "(\<exists>r\<in>set (instances w'). userId r = u \<and> inst_id r = rr_instanceId res)
         \<and> (\<forall>r\<in>set (instances w'). userId r = u \<longrightarrow> status r =
               (if fetch_res env (Suc (length (trace w2))) (Fetch (url @ ''/health'') tok) = Inr True then RUNNING else ERROR))"
    by simp
  from len probe post(2) res rows show ?thesis
    by (simp only: ) auto
qed

subsection \<open>The answers of the gateway do not decide whether deployment throws\<close>

lemma extern_fetch [simp]: "extern (env\<lparr>fetch_res := f\<rparr>) = extern env"
  by (intro ext) (simp add: extern_def)

lemma void_oracle_fetch [simp]: "void_oracle (env\<lparr>fetch_res := f\<rparr>) = void_oracle env"
  by (intro ext) (simp add: void_oracle_def)

lemma waitForMachineState_loop_fetch [simp]:
  "waitForMachineState_loop (env\<lparr>fetch_res := f\<rparr>) fly a m target T start w
     = waitForMachineState_loop env fly a m target T start w"
proof (induction env fly a m target T start w rule: waitForMachineState_loop.induct)
  case (1 env fly a m target T start w)
  have gm: "getMachine (env\<lparr>fetch_res := f\<rparr>) fly a m w = getMachine env fly a m w"
    by (simp add: getMachine_def)
  show ?case
    by (subst waitForMachineState_loop.simps, subst (2) waitForMachineState_loop.simps)
      (auto simp: gm 1 split: prod.splits sum.splits)
qed

lemma pollServiceUrl_fetch [simp]:
  "pollServiceUrl (env\<lparr>fetch_res := f\<rparr>) render sid n w = pollServiceUrl env render sid n w"
proof (induction env render sid n w rule: pollServiceUrl.induct)
  case (1 env render sid n w)
  have gm: "getService (env\<lparr>fetch_res := f\<rparr>) render sid w = getService env render sid w"
    by (simp add: getService_def)
  show ?case
    using 1
    by (subst pollServiceUrl.simps, subst (2) pollServiceUrl.simps)
      (auto simp: gm split: prod.splits sum.splits)
qed

lemma deleteMachines_fetch [simp]:
  "deleteMachines (env\<lparr>fetch_res := f\<rparr>) fly a ms = deleteMachines env fly a ms"
  by (induction ms) (simp_all add: deleteMachine_def)

lemma clients_fetch [simp]:
  "newFlyClient (env\<lparr>fetch_res := f\<rparr>) = newFlyClient env"
  "newRenderClient (env\<lparr>fetch_res := f\<rparr>) = newRenderClient env"
  "verifyAccess (env\<lparr>fetch_res := f\<rparr>) = verifyAccess env"
  "createApp (env\<lparr>fetch_res := f\<rparr>) = createApp env"
  "deleteApp (env\<lparr>fetch_res := f\<rparr>) = deleteApp env"
  "setSecrets (env\<lparr>fetch_res := f\<rparr>) = setSecrets env"
  "createMachine (env\<lparr>fetch_res := f\<rparr>) = createMachine env"
  "listMachines (env\<lparr>fetch_res := f\<rparr>) = listMachines env"
  "allocateIPAddress (env\<lparr>fetch_res := f\<rparr>) = allocateIPAddress env"
  "waitForMachineState (env\<lparr>fetch_res := f\<rparr>) = waitForMachineState env"
  "createService (env\<lparr>fetch_res := f\<rparr>) = createService env"
  "deleteService (env\<lparr>fetch_res := f\<rparr>) = deleteService env"
  "pollServiceUrl (env\<lparr>fetch_res := f\<rparr>) = pollServiceUrl env"
  "deleteMachines (env\<lparr>fetch_res := f\<rparr>) = deleteMachines env"
  "allocatePort (env\<lparr>fetch_res := f\<rparr>) = allocatePort env"
  "cryptoRandomUUID (env\<lparr>fetch_res := f\<rparr>) = cryptoRandomUUID env"
  by (intro ext; simp add: newFlyClient_def newRenderClient_def verifyAccess_def createApp_def
        deleteApp_def setSecrets_def createMachine_def listMachines_def allocateIPAddress_def
        waitForMachineState_def createService_def deleteService_def allocatePort_def
        cryptoRandomUUID_def split: option.splits)+

lemma OPENCLAW_IMAGE_fetch [simp]: "OPENCLAW_IMAGE (env\<lparr>fetch_res := f\<rparr>) = OPENCLAW_IMAGE env"
  by (simp add: OPENCLAW_IMAGE_def)

lemma database_fetch [simp]:
  "instance_findUnique_userId (env\<lparr>fetch_res := f\<rparr>) = instance_findUnique_userId env"
  "instance_create (env\<lparr>fetch_res := f\<rparr>) = instance_create env"
  "instance_update (env\<lparr>fetch_res := f\<rparr>) = instance_update env"
  "instance_delete (env\<lparr>fetch_res := f\<rparr>) = instance_delete env"
  "logDeployment (env\<lparr>fetch_res := f\<rparr>) = logDeployment env"
  by (intro ext; simp add: instance_findUnique_userId_def instance_create_def instance_update_def
        instance_delete_def logDeployment_def)+

lemma cleanup_fetch [simp]:
  "fly_cleanup (env\<lparr>fetch_res := f\<rparr>) = fly_cleanup env"
  "render_cleanup (env\<lparr>fetch_res := f\<rparr>) = render_cleanup env"
  by (intro ext; simp add: fly_cleanup_def render_cleanup_def)+

lemma prepare_fetch [simp]:
  "fly_deploy_prepare (env\<lparr>fetch_res := f\<rparr>) = fly_deploy_prepare env"
  "render_deploy_prepare (env\<lparr>fetch_res := f\<rparr>) = render_deploy_prepare env"
  by (intro ext; simp add: fly_deploy_prepare_def render_deploy_prepare_def cong: option.case_cong)+

lemma provision_fetch [simp]:
  "fly_provision (env\<lparr>fetch_res := f\<rparr>) = fly_provision env"
  "render_provision (env\<lparr>fetch_res := f\<rparr>) = render_provision env"
  by (intro ext; simp add: fly_provision_def render_provision_def)+

lemma deploy_failed_fetch [simp]: "deploy_failed (env\<lparr>fetch_res := f\<rparr>) = deploy_failed env"
  by (intro ext) (simp add: deploy_failed_def)

lemma deploy_failed_isl: "isl (fst (deploy_failed env inst e w))"
  by (auto simp: deploy_failed_def instance_update_def logDeployment_def prog_defs split: option.splits)

lemma isl_try_catch_failed:
  "isl (fst (try_catch m (deploy_failed env inst) w)) = isl (fst (m w))"
  by (auto simp: try_catch_def deploy_failed_isl split: prod.splits sum.splits)

lemma fly_verify_throws:
  "isl (fst (fly_verify env a inst p tok machine url w)) =
     (void_res env (length (trace w)) (DbLogCreate (inst_id inst)) \<noteq> None
      \<or> void_res env (Suc (Suc (length (trace w)))) (DbUpdate (inst_id inst)) \<noteq> None
      \<or> \<not> (\<exists>r\<in>set (instances w). inst_id r = inst_id inst)
      \<or> void_res env (Suc (Suc (Suc (length (trace w))))) (DbLogCreate (inst_id inst)) \<noteq> None)"
  by (simp add: fly_verify_def isl_bind logDeployment_run instance_update_run healthProbe_run sleep_def return_def
        split: option.splits)

lemma render_verify_throws:
  "isl (fst (render_verify env a inst p tok service url surl w)) =
     (void_res env (length (trace w)) (DbLogCreate (inst_id inst)) \<noteq> None
      \<or> void_res env (Suc (Suc (length (trace w)))) (DbUpdate (inst_id inst)) \<noteq> None
      \<or> \<not> (\<exists>r\<in>set (instances w). inst_id r = inst_id inst)
      \<or> void_res env (Suc (Suc (Suc (length (trace w))))) (DbLogCreate (inst_id inst)) \<noteq> None)"
  by (simp add: render_verify_def isl_bind logDeployment_run instance_update_run healthProbe_run sleep_def return_def
        split: option.splits)

lemma fly_deploy_isl:
  "isl (fst (fly_deployInstance (env\<lparr>fetch_res := f\<rparr>) u cfg w))
   = isl (fst (fly_deployInstance (env\<lparr>fetch_res := g\<rparr>) u cfg w))"
  by (simp add: fly_deployInstance_def fly_deploy_steps_def isl_bind isl_try_catch_failed
        fly_verify_throws split: prod.splits sum.splits)

lemma render_deploy_isl:
  "isl (fst (render_deployInstance (env\<lparr>fetch_res := f\<rparr>) u cfg w))
   = isl (fst (render_deployInstance (env\<lparr>fetch_res := g\<rparr>) u cfg w))"
  by (simp add: render_deployInstance_def render_deploy_steps_def isl_bind isl_try_catch_failed
        render_verify_throws split: prod.splits sum.splits)

text \<open>
  C1. When \<open>deployInstance\<close> returns, its last three calls were the \<open>/health\<close> probe on the
  returned access URL, the final update of the row and the final log row. The returned status
  is \<open>RUNNING\<close> if that probe answered with a 2xx status and \<open>ERROR\<close> otherwise (another status,
  or a thrown \<open>fetch\<close>); the user has a row, it is the row of the returned instance id, and
  every row of the user has status \<open>RUNNING\<close> or \<open>ERROR\<close> in the same way, so none is left at
  \<open>DEPLOYING\<close>. Whether \<open>deployInstance\<close> throws does not depend on how the gateway answers.
\<close>

theorem deployInstance_final_status:
  "(fly_deployInstance env u cfg w = (Inr res, w') \<longrightarrow>
       3 \<le> length (trace w')
       \<and> (\<exists>tok. trace w' ! (length (trace w') - 3) = Fetch (fr_accessUrl res @ ''/health'') tok)
       \<and> fr_status res = (if fetch_res env (length (trace w') - 3) (trace w' ! (length (trace w') - 3)) = Inr True
                         then ''RUNNING'' else ''ERROR'')
       \<and> (\<exists>r\<in>set (instances w'). userId r = u \<and> inst_id r = fr_instanceId res)
       \<and> (\<forall>r\<in>set (instances w'). userId r = u \<longrightarrow>
             status r = (if fetch_res env (length (trace w') - 3) (trace w' ! (length (trace w') - 3)) = Inr True
                         then RUNNING else ERROR)))
   \<and> (render_deployInstance env u cfg w = (Inr res', w'') \<longrightarrow>
       3 \<le> length (trace w'')
       \<and> (\<exists>tok. trace w'' ! (length (trace w'') - 3) = Fetch (rr_accessUrl res' @ ''/health'') tok)
       \<and> rr_status res' = (if fetch_res env (length (trace w'') - 3) (trace w'' ! (length (trace w'') - 3)) = Inr True
                         then ''RUNNING'' else ''ERROR'')
       \<and> (\<exists>r\<in>set (instances w''). userId r = u \<and> inst_id r = rr_instanceId res')
       \<and> (\<forall>r\<in>set (instances w''). userId r = u \<longrightarrow>
             status r = (if fetch_res env (length (trace w'') - 3) (trace w'' ! (length (trace w'') - 3)) = Inr True
                         then RUNNING else ERROR)))
   \<and> isl (fst (fly_deployInstance (env\<lparr>fetch_res := f\<rparr>) u cfg w))
       = isl (fst (fly_deployInstance (env\<lparr>fetch_res := g\<rparr>) u cfg w))
   \<and> isl (fst (render_deployInstance (env\<lparr>fetch_res := f\<rparr>) u cfg w))
       = isl (fst (render_deployInstance (env\<lparr>fetch_res := g\<rparr>) u cfg w))"
proof -
  have A: "fly_deployInstance env u cfg w = (Inr res, w') \<longrightarrow>
       3 \<le> length (trace w')
       \<and> (\<exists>tok. trace w' ! (length (trace w') - 3) = Fetch (fr_accessUrl res @ ''/health'') tok)
       \<and> fr_status res = (if fetch_res env (length (trace w') - 3) (trace w' ! (length (trace w') - 3)) = Inr True
                         then ''RUNNING'' else ''ERROR'')
       \<and> (\<exists>r\<in>set (instances w'). userId r = u \<and> inst_id r = fr_instanceId res)
       \<and> (\<forall>r\<in>set (instances w'). userId r = u \<longrightarrow>
             status r = (if fetch_res env (length (trace w') - 3) (trace w' ! (length (trace w') - 3)) = Inr True
                         then RUNNING else ERROR))"
    by (rule impI) (rule fly_final)
  have B: "render_deployInstance env u cfg w = (Inr res', w'') \<longrightarrow>
       3 \<le> length (trace w'')
       \<and> (\<exists>tok. trace w'' ! (length (trace w'') - 3) = Fetch (rr_accessUrl res' @ ''/health'') tok)
       \<and> rr_status res' = (if fetch_res env (length (trace w'') - 3) (trace w'' ! (length (trace w'') - 3)) = Inr True
                         then ''RUNNING'' else ''ERROR'')
       \<and> (\<exists>r\<in>set (instances w''). userId r = u \<and> inst_id r = rr_instanceId res')
       \<and> (\<forall>r\<in>set (instances w''). userId r = u \<longrightarrow>
             status r = (if fetch_res env (length (trace w'') - 3) (trace w'' ! (length (trace w'') - 3)) = Inr True
                         then RUNNING else ERROR))"
    by (rule impI) (rule render_final)
  show ?thesis
    by (rule conjI[OF A conjI[OF B conjI[OF fly_deploy_isl render_deploy_isl]]])
qed

lemmas deploy_eval = fly_deployInstance_def fly_deploy_prepare_def fly_deploy_steps_def
  fly_provision_def fly_verify_def render_deployInstance_def render_deploy_prepare_def
  render_deploy_steps_def render_provision_def render_verify_def deploy_failed_def healthProbe_def
  verifyAccess_def createApp_def setSecrets_def createMachine_def getMachine_def
  allocateIPAddress_def waitForMachineState_def waitForMachineState_loop.simps allocatePort_def
  createService_def getService_def pollServiceUrl.simps getShellUrl_def
  OPENCLAW_IMAGE_def getAppUrl_def getAppHostname_def slice0_def digit36_def toString36.simps
  js_truthy_def js_text_def Let_def calm_env_def empty_world_def

theorem deployInstance_final_status_witness:
  "fst (fly_deployInstance probe_down_env ''user-1'' () empty_world)
     = Inr \<lparr>fr_instanceId = ''inst-1'', fr_machineId = ''m1'', fr_appName = ''openclaw-user-1-0'',
            fr_port = 20001, fr_accessUrl = ''https://openclaw-user-1-0.fly.dev'',
            fr_status = ''ERROR''\<rparr>
   \<and> map userId (instances (snd (fly_deployInstance probe_down_env ''user-1'' () empty_world))) = [''user-1'']
   \<and> map status (instances (snd (fly_deployInstance probe_down_env ''user-1'' () empty_world))) = [ERROR]
   \<and> fst (render_deployInstance calm_env ''user-1'' () empty_world)
     = Inr \<lparr>rr_instanceId = ''inst-1'', rr_serviceId = ''srv-1'', rr_serviceName = ''openclaw-user-1'',
            rr_port = 20001, rr_accessUrl = ''https://openclaw-user-1.onrender.com'',
            rr_shellUrl = ''https://dashboard.render.com/web/srv-1/shell'',
            rr_status = ''RUNNING''\<rparr>
   \<and> map userId (instances (snd (render_deployInstance calm_env ''user-1'' () empty_world))) = [''user-1'']
   \<and> map status (instances (snd (render_deployInstance calm_env ''user-1'' () empty_world))) = [RUNNING]"
proof -
  let ?fly = "fly_deployInstance probe_down_env ''user-1'' () empty_world"
  let ?render = "render_deployInstance calm_env ''user-1'' () empty_world"
  let ?res = "\<lparr>fr_instanceId = ''inst-1'', fr_machineId = ''m1'', fr_appName = ''openclaw-user-1-0'',
            fr_port = 20001, fr_accessUrl = ''https://openclaw-user-1-0.fly.dev'',
            fr_status = ''ERROR''\<rparr>"
  let ?res' = "\<lparr>rr_instanceId = ''inst-1'', rr_serviceId = ''srv-1'', rr_serviceName = ''openclaw-user-1'',
            rr_port = 20001, rr_accessUrl = ''https://openclaw-user-1.onrender.com'',
            rr_shellUrl = ''https://dashboard.render.com/web/srv-1/shell'',
            rr_status = ''RUNNING''\<rparr>"
  have f: "fst ?fly = Inr ?res"
    by (simp add: probe_down_env_def deploy_eval run_defs)
  have r: "fst ?render = Inr ?res'"
    by (simp add: deploy_eval run_defs)
  from f have feq: "?fly = (Inr ?res, snd ?fly)" by (simp add: prod_eq_iff)
  from r have req: "?render = (Inr ?res', snd ?render)" by (simp add: prod_eq_iff)
  have down: "\<And>n c. fetch_res probe_down_env n c = Inr False"
    and up: "\<And>n c. fetch_res calm_env n c = Inr True"
    by (simp_all add: probe_down_env_def calm_env_def)
  note T = deployInstance_final_status
  from T[where env=probe_down_env and u="''user-1''" and cfg="()" and w=empty_world and res="?res"
      and w'="snd ?fly", THEN conjunct1, rule_format, OF feq]
  have a: "\<forall>r\<in>set (instances (snd ?fly)). userId r = ''user-1'' \<longrightarrow> status r = ERROR"
    by (simp only: down) simp
  from T[where env=calm_env and u="''user-1''" and cfg="()" and w=empty_world and res'="?res'"
      and w''="snd ?render", THEN conjunct2, THEN conjunct1, rule_format, OF req]
  have b: "\<forall>r\<in>set (instances (snd ?render)). userId r = ''user-1'' \<longrightarrow> status r = RUNNING"
    by (simp only: up) simp
  have rows: "map userId (instances (snd ?fly)) = [''user-1'']"
    by (simp add: probe_down_env_def deploy_eval run_defs)
  have rows': "map userId (instances (snd ?render)) = [''user-1'']"
    by (simp add: deploy_eval run_defs)
  from a rows have c: "map status (instances (snd ?fly)) = [ERROR]"
    by (cases "instances (snd ?fly)") auto
  from b rows' have d: "map status (instances (snd ?render)) = [RUNNING]"
    by (cases "instances (snd ?render)") auto
  from f rows c r rows' d show ?thesis by (intro conjI)
qed

subsection \<open>A run that fails\<close>

lemma deploy_failed_run:
  assumes ex: "\<exists>r\<in>set (instances w2). inst_id r = inst_id inst"
    and upd_ok: "void_res env (length (trace w2)) (DbUpdate (inst_id inst)) = None"
    and log_ok: "void_res env (Suc (length (trace w2))) (DbLogCreate (inst_id inst)) = None"
  shows "\<exists>w3. deploy_failed env inst e w2 = (Inl (Error (''Deployment failed: '' @ message e)), w3)
           \<and> instances w3 = map (\<lambda>r. if inst_id r = inst_id inst then r\<lparr>status := ERROR\<rparr> else r) (instances w2)
           \<and> deploymentLogs w3 = deploymentLogs w2 @
                [\<lparr>log_instanceId = inst_id inst, log_action = ''DEPLOY'', log_status = ''FAILED'',
                  log_message = ''Deployment failed'', log_error = Some (message e)\<rparr>]
           \<and> trace w3 = trace w2 @ [DbUpdate (inst_id inst), DbLogCreate (inst_id inst)]"
  using assms
  by (simp add: deploy_failed_def bind_def instance_update_run logDeployment_run throw_def)

text \<open>
  C2, as the code has it. When a step of the \<open>try\<close> block fails with error \<open>e\<close> (that is, any
  step after the placeholder row and the first log row were written) and the two database
  writes of the \<open>catch\<close> block do not fail themselves, \<open>deployInstance\<close> throws
  \<open>Deployment failed: \<close> followed by the message of \<open>e\<close>; the user's row exists and has status
  \<open>ERROR\<close>; the last \<open>DeploymentLog\<close> row has status \<open>FAILED\<close> and carries the message of \<open>e\<close>;
  and after the failure nothing is called but these two writes: no step is tried again.
\<close>

theorem deployInstance_failure_handling:
  "(fly_deploy_prepare env u w = (Inr (fly, a, inst, p), w1)
      \<and> fly_deploy_steps env fly a cfg inst p w1 = (Inl e, w2)
      \<and> void_res env (length (trace w2)) (DbUpdate (inst_id inst)) = None
      \<and> void_res env (Suc (length (trace w2))) (DbLogCreate (inst_id inst)) = None
    \<longrightarrow> (\<exists>w3. fly_deployInstance env u cfg w = (Inl (Error (''Deployment failed: '' @ message e)), w3)
           \<and> (\<exists>r\<in>set (instances w3). userId r = u)
           \<and> (\<forall>r\<in>set (instances w3). userId r = u \<longrightarrow> status r = ERROR)
           \<and> deploymentLogs w3 = deploymentLogs w2 @
                [\<lparr>log_instanceId = inst_id inst, log_action = ''DEPLOY'', log_status = ''FAILED'',
                  log_message = ''Deployment failed'', log_error = Some (message e)\<rparr>]
           \<and> trace w3 = trace w2 @ [DbUpdate (inst_id inst), DbLogCreate (inst_id inst)]))
   \<and> (render_deploy_prepare env u w = (Inr (render, a', inst', p'), w1')
      \<and> render_deploy_steps env render a' cfg inst' p' w1' = (Inl e', w2')
      \<and> void_res env (length (trace w2')) (DbUpdate (inst_id inst')) = None
      \<and> void_res env (Suc (length (trace w2'))) (DbLogCreate (inst_id inst')) = None
    \<longrightarrow> (\<exists>w3. render_deployInstance env u cfg w = (Inl (Error (''Deployment failed: '' @ message e')), w3)
           \<and> (\<exists>r\<in>set (instances w3). userId r = u)
           \<and> (\<forall>r\<in>set (instances w3). userId r = u \<longrightarrow> status r = ERROR)
           \<and> deploymentLogs w3 = deploymentLogs w2' @
                [\<lparr>log_instanceId = inst_id inst', log_action = ''DEPLOY'', log_status = ''FAILED'',
                  log_message = ''Deployment failed'', log_error = Some (message e')\<rparr>]
           \<and> trace w3 = trace w2' @ [DbUpdate (inst_id inst'), DbLogCreate (inst_id inst')]))"
proof (intro conjI impI; elim conjE)
  assume prep: "fly_deploy_prepare env u w = (Inr (fly, a, inst, p), w1)"
    and fail: "fly_deploy_steps env fly a cfg inst p w1 = (Inl e, w2)"
    and ok: "void_res env (length (trace w2)) (DbUpdate (inst_id inst)) = None"
            "void_res env (Suc (length (trace w2))) (DbLogCreate (inst_id inst)) = None"
  from fly_prepare_post[OF prep] keeps_keysD[OF keeps_keys_fly_steps fail]
  have sole: "sole_row u (inst_id inst) w2"
    by (auto intro: sole_row_same_keys)
  then have ex: "\<exists>r\<in>set (instances w2). inst_id r = inst_id inst"
    by (simp add: sole_row_def)
  from deploy_failed_run[OF ex ok, of e] obtain w3 where
    h: "(deploy_failed env inst e w2 :: (error + FlyDeploymentResult) \<times> world) = (Inl (Error (''Deployment failed: '' @ message e)), w3)"
    and i: "instances w3 = map (\<lambda>r. if inst_id r = inst_id inst then r\<lparr>status := ERROR\<rparr> else r) (instances w2)"
    and rest: "deploymentLogs w3 = deploymentLogs w2 @
                [\<lparr>log_instanceId = inst_id inst, log_action = ''DEPLOY'', log_status = ''FAILED'',
                  log_message = ''Deployment failed'', log_error = Some (message e)\<rparr>]"
              "trace w3 = trace w2 @ [DbUpdate (inst_id inst), DbLogCreate (inst_id inst)]"
    by blast
  from prep fail h have run: "fly_deployInstance env u cfg w = (Inl (Error (''Deployment failed: '' @ message e)), w3)"
    by (simp add: fly_deployInstance_def bind_def try_catch_def)
  from sole_row_final_status[OF sole _ i, of ERROR] have
    "(\<exists>r\<in>set (instances w3). userId r = u \<and> inst_id r = inst_id inst)
     \<and> (\<forall>r\<in>set (instances w3). userId r = u \<longrightarrow> status r = ERROR)"
    by simp
  with run rest show "\<exists>w3. fly_deployInstance env u cfg w = (Inl (Error (''Deployment failed: '' @ message e)), w3)
           \<and> (\<exists>r\<in>set (instances w3). userId r = u)
           \<and> (\<forall>r\<in>set (instances w3). userId r = u \<longrightarrow> status r = ERROR)
           \<and> deploymentLogs w3 = deploymentLogs w2 @
                [\<lparr>log_instanceId = inst_id inst, log_action = ''DEPLOY'', log_status = ''FAILED'',
                  log_message = ''Deployment failed'', log_error = Some (message e)\<rparr>]
           \<and> trace w3 = trace w2 @ [DbUpdate (inst_id inst), DbLogCreate (inst_id inst)]"
    by blast
next
  assume prep: "render_deploy_prepare env u w = (Inr (render, a', inst', p'), w1')"
    and fail: "render_deploy_steps env render a' cfg inst' p' w1' = (Inl e', w2')"
    and ok: "void_res env (length (trace w2')) (DbUpdate (inst_id inst')) = None"
            "void_res env (Suc (length (trace w2'))) (DbLogCreate (inst_id inst')) = None"
  from render_prepare_post[OF prep] keeps_keysD[OF keeps_keys_render_steps fail]
  have sole: "sole_row u (inst_id inst') w2'"
    by (auto intro: sole_row_same_keys)
  then have ex: "\<exists>r\<in>set (instances w2'). inst_id r = inst_id inst'"
    by (simp add: sole_row_def)
  from deploy_failed_run[OF ex ok, of e'] obtain w3 where
    h: "(deploy_failed env inst' e' w2' :: (error + RenderDeploymentResult) \<times> world) = (Inl (Error (''Deployment failed: '' @ message e')), w3)"
    and i: "instances w3 = map (\<lambda>r. if inst_id r = inst_id inst' then r\<lparr>status := ERROR\<rparr> else r) (instances w2')"
    and rest: "deploymentLogs w3 = deploymentLogs w2' @
                [\<lparr>log_instanceId = inst_id inst', log_action = ''DEPLOY'', log_status = ''FAILED'',
                  log_message = ''Deployment failed'', log_error = Some (message e')\<rparr>]"
              "trace w3 = trace w2' @ [DbUpdate (inst_id inst'), DbLogCreate (inst_id inst')]"
    by blast
  from prep fail h have run: "render_deployInstance env u cfg w = (Inl (Error (''Deployment failed: '' @ message e')), w3)"
    by (simp add: render_deployInstance_def bind_def try_catch_def)
  from sole_row_final_status[OF sole _ i, of ERROR] have
    "(\<exists>r\<in>set (instances w3). userId r = u \<and> inst_id r = inst_id inst')
     \<and> (\<forall>r\<in>set (instances w3). userId r = u \<longrightarrow> status r = ERROR)"
    by simp
  with run rest show "\<exists>w3. render_deployInstance env u cfg w = (Inl (Error (''Deployment failed: '' @ message e')), w3)
           \<and> (\<exists>r\<in>set (instances w3). userId r = u)
           \<and> (\<forall>r\<in>set (instances w3). userId r = u \<longrightarrow> status r = ERROR)
           \<and> deploymentLogs w3 = deploymentLogs w2' @
                [\<lparr>log_instanceId = inst_id inst', log_action = ''DEPLOY'', log_status = ''FAILED'',
                  log_message = ''Deployment failed'', log_error = Some (message e')\<rparr>]
           \<and> trace w3 = trace w2' @ [DbUpdate (inst_id inst'), DbLogCreate (inst_id inst')]"
    by blast
qed

theorem deployInstance_failure_handling_witness:
  "fst (fly_deployInstance create_down_env ''user-1'' () empty_world)
     = Inl (Error ''Deployment failed: Fly.io API error 422: no capacity'')
   \<and> map status (instances (snd (fly_deployInstance create_down_env ''user-1'' () empty_world))) = [ERROR]
   \<and> last (deploymentLogs (snd (fly_deployInstance create_down_env ''user-1'' () empty_world)))
     = \<lparr>log_instanceId = ''inst-1'', log_action = ''DEPLOY'', log_status = ''FAILED'',
        log_message = ''Deployment failed'', log_error = Some ''Fly.io API error 422: no capacity''\<rparr>
   \<and> fst (render_deployInstance create_down_env ''user-1'' () empty_world)
     = Inl (Error ''Deployment failed: Render API error 402: payment required'')
   \<and> last (deploymentLogs (snd (render_deployInstance create_down_env ''user-1'' () empty_world)))
     = \<lparr>log_instanceId = ''inst-1'', log_action = ''DEPLOY'', log_status = ''FAILED'',
        log_message = ''Deployment failed'', log_error = Some ''Render API error 402: payment required''\<rparr>"
proof -
  let ?inst = "\<lparr>inst_id = ''inst-1'', userId = ''user-1'', containerId = None,
                containerName = Some ''openclaw-user-1-0'', port = 20001, status = DEPLOYING,
                accessUrl = None, serviceUrl = None, gatewayToken = None, lastHealthCheck = None\<rparr>"
  let ?inst' = "\<lparr>inst_id = ''inst-1'', userId = ''user-1'', containerId = None,
                containerName = Some ''openclaw-user-1'', port = 20001, status = DEPLOYING,
                accessUrl = None, serviceUrl = None, gatewayToken = None, lastHealthCheck = None\<rparr>"
  let ?prep = "fly_deploy_prepare create_down_env ''user-1'' empty_world"
  let ?prep' = "render_deploy_prepare create_down_env ''user-1'' empty_world"
  let ?steps = "fly_deploy_steps create_down_env sample_fly ''openclaw-user-1-0'' () ?inst 20001 (snd ?prep)"
  let ?steps' = "render_deploy_steps create_down_env sample_render ''openclaw-user-1'' () ?inst' 20001 (snd ?prep')"
  let ?e = "Error ''Fly.io API error 422: no capacity''"
  let ?e' = "Error ''Render API error 402: payment required''"
  have quiet: "\<And>n c. void_res create_down_env n c = None"
    by (simp add: create_down_env_def calm_env_def)
  have "fst ?prep = Inr (sample_fly, ''openclaw-user-1-0'', ?inst, 20001)"
    by (simp add: create_down_env_def sample_fly_def deploy_eval run_defs)
  then have prep: "?prep = (Inr (sample_fly, ''openclaw-user-1-0'', ?inst, 20001), snd ?prep)"
    by (simp add: prod_eq_iff)
  have "fst ?steps = Inl ?e"
    by (simp add: create_down_env_def sample_fly_def deploy_eval run_defs)
  then have steps: "?steps = (Inl ?e, snd ?steps)"
    by (simp add: prod_eq_iff)
  have "fst ?prep' = Inr (sample_render, ''openclaw-user-1'', ?inst', 20001)"
    by (simp add: create_down_env_def sample_render_def deploy_eval run_defs)
  then have prep': "?prep' = (Inr (sample_render, ''openclaw-user-1'', ?inst', 20001), snd ?prep')"
    by (simp add: prod_eq_iff)
  have "fst ?steps' = Inl ?e'"
    by (simp add: create_down_env_def sample_render_def deploy_eval run_defs)
  then have steps': "?steps' = (Inl ?e', snd ?steps')"
    by (simp add: prod_eq_iff)
  have rows: "map userId (instances (snd (fly_deployInstance create_down_env ''user-1'' () empty_world))) = [''user-1'']"
    by (simp add: create_down_env_def deploy_eval run_defs)
  note T = deployInstance_failure_handling[where env=create_down_env and u="''user-1''" and cfg="()"
      and w=empty_world]
  from T[where fly=sample_fly and a="''openclaw-user-1-0''" and inst="?inst" and p=20001
      and ?w1.0="snd ?prep" and e="?e" and ?w2.0="snd ?steps", THEN conjunct1, rule_format,
      OF conjI[OF prep conjI[OF steps conjI[OF quiet quiet]]]]
  have a: "fst (fly_deployInstance create_down_env ''user-1'' () empty_world)
             = Inl (Error ''Deployment failed: Fly.io API error 422: no capacity'')
     \<and> (\<forall>r\<in>set (instances (snd (fly_deployInstance create_down_env ''user-1'' () empty_world))).
           userId r = ''user-1'' \<longrightarrow> status r = ERROR)
     \<and> last (deploymentLogs (snd (fly_deployInstance create_down_env ''user-1'' () empty_world)))
         = \<lparr>log_instanceId = ''inst-1'', log_action = ''DEPLOY'', log_status = ''FAILED'',
            log_message = ''Deployment failed'', log_error = Some ''Fly.io API error 422: no capacity''\<rparr>"
    apply (elim exE conjE)
    apply simp
    done
  from T[where render=sample_render and a'="''openclaw-user-1''" and inst'="?inst'" and p'=20001
      and w1'="snd ?prep'" and e'="?e'" and w2'="snd ?steps'", THEN conjunct2, rule_format,
      OF conjI[OF prep' conjI[OF steps' conjI[OF quiet quiet]]]]
  have b: "fst (render_deployInstance create_down_env ''user-1'' () empty_world)
             = Inl (Error ''Deployment failed: Render API error 402: payment required'')
     \<and> last (deploymentLogs (snd (render_deployInstance create_down_env ''user-1'' () empty_world)))
         = \<lparr>log_instanceId = ''inst-1'', log_action = ''DEPLOY'', log_status = ''FAILED'',
            log_message = ''Deployment failed'', log_error = Some ''Render API error 402: payment required''\<rparr>"
    apply (elim exE conjE)
    apply simp
    done
  from a rows have c: "map status (instances (snd (fly_deployInstance create_down_env ''user-1'' () empty_world))) = [ERROR]"
    by (cases "instances (snd (fly_deployInstance create_down_env ''user-1'' () empty_world))") auto
  from a b c show ?thesis by (intro conjI) simp_all
qed

text \<open>
  C2 as stated fails in two runs. When the port allocator throws, which is before the \<open>try\<close>
  block, \<open>deployInstance\<close> throws that error as it is, and there is neither a row with status
  \<open>ERROR\<close> nor a \<open>FAILED\<close> log row. When creating the machine fails inside the \<open>try\<close> block and
  the first database write of the \<open>catch\<close> block fails as well, \<open>deployInstance\<close> throws the
  error of that write; the row keeps status \<open>DEPLOYING\<close> and no \<open>FAILED\<close> log row is written.
\<close>

theorem deployInstance_unhandled_failure_counterexample:
  "fly_deployInstance port_down_env ''user-1'' () empty_world
     = (Inl (Error ''No free port''), empty_world\<lparr>trace := [DbFindUnique ''user-1'', AllocatePort]\<rparr>)
   \<and> instances (empty_world\<lparr>trace := [DbFindUnique ''user-1'', AllocatePort]\<rparr>) = []
   \<and> deploymentLogs (empty_world\<lparr>trace := [DbFindUnique ''user-1'', AllocatePort]\<rparr>) = []
   \<and> fst (fly_deployInstance handler_down_env ''user-1'' () empty_world) = Inl (Error ''Connection lost'')
   \<and> map status (instances (snd (fly_deployInstance handler_down_env ''user-1'' () empty_world))) = [DEPLOYING]
   \<and> map log_status (deploymentLogs (snd (fly_deployInstance handler_down_env ''user-1'' () empty_world)))
       = [''IN_PROGRESS'', ''IN_PROGRESS'']
   \<and> length (trace (snd (fly_deployInstance handler_down_env ''user-1'' () empty_world))) = 11
   \<and> last (trace (snd (fly_deployInstance handler_down_env ''user-1'' () empty_world))) = DbUpdate ''inst-1''"
proof (intro conjI)
  show "fly_deployInstance port_down_env ''user-1'' () empty_world
     = (Inl (Error ''No free port''), empty_world\<lparr>trace := [DbFindUnique ''user-1'', AllocatePort]\<rparr>)"
    by (simp add: fly_deployInstance_def fly_deploy_prepare_def port_down_env_def calm_env_def empty_world_def
          allocatePort_def run_defs Let_def)
  show "instances (empty_world\<lparr>trace := [DbFindUnique ''user-1'', AllocatePort]\<rparr>) = []"
    by (simp add: empty_world_def)
  show "deploymentLogs (empty_world\<lparr>trace := [DbFindUnique ''user-1'', AllocatePort]\<rparr>) = []"
    by (simp add: empty_world_def)
  show "fst (fly_deployInstance handler_down_env ''user-1'' () empty_world) = Inl (Error ''Connection lost'')"
    by (simp add: handler_down_env_def create_down_env_def sample_fly_def deploy_eval run_defs)
  show "map status (instances (snd (fly_deployInstance handler_down_env ''user-1'' () empty_world))) = [DEPLOYING]"
    by (simp add: handler_down_env_def create_down_env_def sample_fly_def deploy_eval run_defs)
  show "map log_status (deploymentLogs (snd (fly_deployInstance handler_down_env ''user-1'' () empty_world)))
       = [''IN_PROGRESS'', ''IN_PROGRESS'']"
    by (simp add: handler_down_env_def create_down_env_def sample_fly_def deploy_eval run_defs)
  show "length (trace (snd (fly_deployInstance handler_down_env ''user-1'' () empty_world))) = 11"
    by (simp add: handler_down_env_def create_down_env_def sample_fly_def deploy_eval run_defs)
  show "last (trace (snd (fly_deployInstance handler_down_env ''user-1'' () empty_world))) = DbUpdate ''inst-1''"
    by (simp add: handler_down_env_def create_down_env_def sample_fly_def deploy_eval run_defs)
qed

end
